theory Spec2Isabelle
  imports Complex_Main "HOL-Library.Sublist" "HOL-Library.Word"
begin

section \<open>Data model\<close>

text \<open>
  The TypeScript interface \<^verbatim>\<open>Location { name: string; lat: number; lng: number }\<close>.
  A JavaScript string is a sequence of 16-bit code units; \<open>js\<close> writes one from a
  literal (each character of the literal becomes the code unit of the same number).
  Coordinates are modelled as mathematical reals, and the trigonometric formulas of the
  route generator are evaluated in exact real arithmetic; the arithmetic of the duration
  label is modelled in IEEE double precision (section on the duration label).
\<close>

type_synonym code_unit = "16 word"

type_synonym jsstring = "code_unit list"

definition js :: "string \<Rightarrow> jsstring" where
  "js s = map of_char s"

record location =
  name :: jsstring
  lat :: real
  lng :: real

type_synonym point = "real \<times> real"

text \<open>The table \<^verbatim>\<open>popularLocations\<close> of the search component, in source order.\<close>

definition Visakhapatnam :: location where
  "Visakhapatnam = \<lparr>name = js ''Visakhapatnam'', lat = 17.6868, lng = 83.2185\<rparr>"

definition Vijayawada :: location where
  "Vijayawada = \<lparr>name = js ''Vijayawada'', lat = 16.5062, lng = 80.6480\<rparr>"

definition popularLocations :: "location list" where
  "popularLocations =
    [ Visakhapatnam,
      Vijayawada,
      \<lparr>name = js ''Guntur'', lat = 16.3067, lng = 80.4365\<rparr>,
      \<lparr>name = js ''Tirupati'', lat = 13.6288, lng = 79.4192\<rparr>,
      \<lparr>name = js ''Rajahmundry'', lat = 17.0005, lng = 81.8040\<rparr>,
      \<lparr>name = js ''Kakinada'', lat = 16.9891, lng = 82.2475\<rparr>,
      \<lparr>name = js ''Nellore'', lat = 14.4426, lng = 79.9865\<rparr>,
      \<lparr>name = js ''Kurnool'', lat = 15.8281, lng = 78.0373\<rparr>,
      \<lparr>name = js ''Anantapur'', lat = 14.6819, lng = 77.6006\<rparr>,
      \<lparr>name = js ''Kadapa'', lat = 14.4674, lng = 78.8241\<rparr>,
      \<lparr>name = js ''Amaravati'', lat = 16.5131, lng = 80.5167\<rparr>,
      \<lparr>name = js ''Eluru'', lat = 16.7107, lng = 81.0952\<rparr>,
      \<lparr>name = js ''Ongole'', lat = 15.5057, lng = 80.0499\<rparr>,
      \<lparr>name = js ''Srikakulam'', lat = 18.2949, lng = 83.8935\<rparr>,
      \<lparr>name = js ''Chittoor'', lat = 13.2172, lng = 79.1003\<rparr> ]"

section \<open>Search filter (LocationSearch)\<close>

text \<open>
  \<^verbatim>\<open>String.prototype.toLowerCase\<close> is a built-in of the JavaScript engine, not code of
  this repository. It applies the Unicode default case conversion, whose table depends on
  the Unicode version of the engine: that conversion is the parameter \<open>engine\<close> of the
  model. On a string of ASCII code units (below 128) the result is the same in every
  engine, the letters A..Z (65..90) moved to a..z and everything else kept, and the model
  computes it.
\<close>

definition ascii_lower :: "code_unit \<Rightarrow> code_unit" where
  "ascii_lower u = (if 65 \<le> u \<and> u \<le> 90 then u + 32 else u)"

definition is_ascii :: "jsstring \<Rightarrow> bool" where
  "is_ascii s = list_all (\<lambda>u. u < 128) s"

definition toLowerCase :: "(jsstring \<Rightarrow> jsstring) \<Rightarrow> jsstring \<Rightarrow> jsstring" where
  "toLowerCase engine s = (if is_ascii s then map ascii_lower s else engine s)"

text \<open>
  \<^verbatim>\<open>String.prototype.includes\<close>: is \<open>sub\<close> a contiguous part of \<open>s\<close>?
  \<open>starts_with\<close> compares at the current position, \<open>includes_str\<close> tries every position
  from left to right.
\<close>

fun starts_with :: "jsstring \<Rightarrow> jsstring \<Rightarrow> bool" where
  "starts_with s [] = True"
| "starts_with [] (c # sub) = False"
| "starts_with (d # s) (c # sub) = (d = c \<and> starts_with s sub)"

fun includes_str :: "jsstring \<Rightarrow> jsstring \<Rightarrow> bool" where
  "includes_str [] sub = starts_with [] sub"
| "includes_str (d # s) sub = (starts_with (d # s) sub \<or> includes_str s sub)"

text \<open>
  \<^verbatim>\<open>const filteredLocations = popularLocations.filter(loc =>
      loc.name.toLowerCase().includes(query.toLowerCase()))\<close>
\<close>

definition filteredLocations :: "(jsstring \<Rightarrow> jsstring) \<Rightarrow> jsstring \<Rightarrow> location list" where
  "filteredLocations engine query =
     filter (\<lambda>loc. includes_str (toLowerCase engine (name loc)) (toLowerCase engine query))
       popularLocations"

text \<open>The local state of one search box: the three \<^verbatim>\<open>useState\<close> cells.\<close>

record search_state =
  query :: jsstring
  isOpen :: bool
  isLoading :: bool

text \<open>
  \<^verbatim>\<open>useState(value?.name || '')\<close>, \<^verbatim>\<open>useState(false)\<close>, \<^verbatim>\<open>useState(false)\<close>.
\<close>

definition search_init :: "location option \<Rightarrow> search_state" where
  "search_init v =
     \<lparr>query = (case v of None \<Rightarrow> [] | Some l \<Rightarrow> name l), isOpen = False, isLoading = False\<rparr>"

text \<open>
  Each handler returns the new local state and what it passes to the \<^verbatim>\<open>onChange\<close>
  callback of the parent: \<open>None\<close> when the callback is not called, \<open>Some v\<close> when it
  is called with \<open>v\<close> (\<open>v = None\<close> being JavaScript's \<^verbatim>\<open>null\<close>).
\<close>

definition handleSelect :: "location \<Rightarrow> search_state \<Rightarrow> search_state \<times> location option option" where
  "handleSelect l st = (st\<lparr>query := name l, isOpen := False\<rparr>, Some (Some l))"

definition handleInputChange :: "jsstring \<Rightarrow> search_state \<Rightarrow> search_state \<times> location option option" where
  "handleInputChange newQuery st =
     (st\<lparr>query := newQuery, isOpen := (length newQuery > 0)\<rparr>,
      if newQuery = [] then Some None else None)"

definition handleClear :: "search_state \<Rightarrow> search_state \<times> location option option" where
  "handleClear st = (st\<lparr>query := [], isOpen := False\<rparr>, Some None)"

text \<open>\<^verbatim>\<open>onFocus={() => query.length > 0 && setIsOpen(true)}\<close>\<close>

definition onFocus :: "search_state \<Rightarrow> search_state" where
  "onFocus st = (if length (query st) > 0 then st\<lparr>isOpen := True\<rparr> else st)"

text \<open>\<^verbatim>\<open>onBlur={() => setTimeout(() => setIsOpen(false), 200)}\<close>, once the timer has fired.\<close>

definition onBlur :: "search_state \<Rightarrow> search_state" where
  "onBlur st = st\<lparr>isOpen := False\<rparr>"

datatype search_event =
  InputChange jsstring | Select location | Clear | Focus | Blur

fun search_step :: "search_state \<Rightarrow> search_event \<Rightarrow> search_state" where
  "search_step st (InputChange q) = fst (handleInputChange q st)"
| "search_step st (Select l) = fst (handleSelect l st)"
| "search_step st Clear = fst (handleClear st)"
| "search_step st Focus = onFocus st"
| "search_step st Blur = onBlur st"

text \<open>
  The two conditional blocks of the render function: the suggestion list
  (\<^verbatim>\<open>isOpen && filteredLocations.length > 0\<close>) and the "No locations found" box
  (\<^verbatim>\<open>isOpen && filteredLocations.length === 0 && query.length > 0\<close>).
\<close>

definition suggestions_shown :: "(jsstring \<Rightarrow> jsstring) \<Rightarrow> search_state \<Rightarrow> bool" where
  "suggestions_shown engine st = (isOpen st \<and> length (filteredLocations engine (query st)) > 0)"

definition no_results_shown :: "(jsstring \<Rightarrow> jsstring) \<Rightarrow> search_state \<Rightarrow> bool" where
  "no_results_shown engine st =
     (isOpen st \<and> length (filteredLocations engine (query st)) = 0 \<and> length (query st) > 0)"

section \<open>Route generator (AppSidebar)\<close>

subsection \<open>Numbers as text\<close>

text \<open>
  Template literals print an integral number below \<open>10\<^sup>2\<^sup>1\<close> as its decimal digits,
  with a leading minus sign when negative.
\<close>

definition digit_char :: "nat \<Rightarrow> char" where
  "digit_char d = char_of (48 + d)"

function show_nat :: "nat \<Rightarrow> string" where
  "show_nat n = (if n < 10 then [digit_char n] else show_nat (n div 10) @ [digit_char (n mod 10)])"
  by pat_completeness auto
termination
  by (relation "measure (\<lambda>n. n)") auto

declare show_nat.simps [simp del]

definition show_int :: "int \<Rightarrow> string" where
  "show_int i = (if i < 0 then ''-'' @ show_nat (nat (- i)) else show_nat (nat i))"

text \<open>
  \<^verbatim>\<open>x.toFixed(1)\<close> for \<open>\<bar>x\<bar> < 10\<^sup>2\<^sup>1\<close>: the sign, then the integer \<open>n\<close> nearest to
  \<open>10 * \<bar>x\<bar>\<close> (the larger one on a tie), printed with a point before its last digit.
\<close>

definition toFixed1 :: "real \<Rightarrow> string" where
  "toFixed1 x =
     (let s = (if x < 0 then ''-'' else []);
          n = nat \<lfloor>\<bar>x\<bar> * 10 + 1 / 2\<rfloor>
      in s @ show_nat (n div 10) @ ''.'' @ show_nat (n mod 10))"

subsection \<open>The interpolated points\<close>

text \<open>
  \<^verbatim>\<open>for (let i = 0; i <= steps; i++) {
    const t = i / steps;
    const curve = Math.sin(t * Math.PI) * 0.2;
    const lat = source.lat + (destination.lat - source.lat) * t + curve;
    const lng = source.lng + (destination.lng - source.lng) * t;
    points.push([lat, lng]);
  }\<close>
\<close>

function route_loop :: "location \<Rightarrow> location \<Rightarrow> nat \<Rightarrow> nat \<Rightarrow> point list \<Rightarrow> point list" where
  "route_loop src dst steps i points =
     (if i \<le> steps then
        (let t = real i / real steps;
             curve = sin (t * pi) * 0.2;
             lat' = lat src + (lat dst - lat src) * t + curve;
             lng' = lng src + (lng dst - lng src) * t
         in route_loop src dst steps (i + 1) (points @ [(lat', lng')]))
      else points)"
  by pat_completeness auto
termination
  by (relation "measure (\<lambda>(src, dst, steps, i, points). Suc steps - i)") auto

declare route_loop.simps [simp del]

definition route_points :: "location \<Rightarrow> location \<Rightarrow> point list" where
  "route_points src dst = route_loop src dst 20 0 []"

text \<open>The pair pushed by the loop body at index \<open>i\<close>; used to describe the loop's result.\<close>

definition route_point :: "location \<Rightarrow> location \<Rightarrow> nat \<Rightarrow> nat \<Rightarrow> point" where
  "route_point src dst steps i =
     (lat src + (lat dst - lat src) * (real i / real steps) + sin (real i / real steps * pi) * 0.2,
      lng src + (lng dst - lng src) * (real i / real steps))"

subsection \<open>Haversine distance\<close>

text \<open>
  \<^verbatim>\<open>Math.atan2(y, x)\<close> on reals (there are no signed zeros, so \<open>y = 0\<close> with \<open>x < 0\<close>
  gives \<open>pi\<close> and \<open>x = y = 0\<close> gives \<open>0\<close>).
\<close>

definition Math_atan2 :: "real \<Rightarrow> real \<Rightarrow> real" where
  "Math_atan2 y x =
     (if x > 0 then arctan (y / x)
      else if x < 0 then (if y \<ge> 0 then arctan (y / x) + pi else arctan (y / x) - pi)
      else if y > 0 then pi / 2
      else if y < 0 then - (pi / 2)
      else 0)"

text \<open>
  \<^verbatim>\<open>const dLat = (destination.lat - source.lat) * Math.PI / 180;
  const dLon = (destination.lng - source.lng) * Math.PI / 180;
  const a = Math.sin(dLat/2) * Math.sin(dLat/2) +
    Math.cos(source.lat * Math.PI / 180) * Math.cos(destination.lat * Math.PI / 180) *
    Math.sin(dLon/2) * Math.sin(dLon/2);\<close>
\<close>

definition haversine_a :: "location \<Rightarrow> location \<Rightarrow> real" where
  "haversine_a src dst =
     (let dLat = (lat dst - lat src) * pi / 180;
          dLon = (lng dst - lng src) * pi / 180
      in sin (dLat / 2) * sin (dLat / 2) +
         cos (lat src * pi / 180) * cos (lat dst * pi / 180) *
         sin (dLon / 2) * sin (dLon / 2))"

text \<open>
  \<^verbatim>\<open>const R = 6371;
  const c = 2 * Math.atan2(Math.sqrt(a), Math.sqrt(1-a));
  const distance = R * c;\<close>
  The formula is evaluated in exact real arithmetic. There \<open>a\<close> lies between 0 and 1
  (lemma \<open>haversine_a_range\<close>), so neither square root has a negative argument. The
  rounding of doubles is not part of this definition: for two points that are nearly
  antipodal the code can compute an \<open>a\<close> just above 1 and then yields NaN, a case this
  model does not cover.
\<close>

definition haversine_distance :: "location \<Rightarrow> location \<Rightarrow> real" where
  "haversine_distance src dst =
     (let R = 6371;
          a = haversine_a src dst;
          c = 2 * Math_atan2 (sqrt a) (sqrt (1 - a))
      in R * c)"

subsection \<open>Double-precision arithmetic\<close>

text \<open>
  The arithmetic operators of JavaScript return the exact result rounded to the nearest
  IEEE double, a tie going to the even significand. \<open>fl\<close> is that rounding on the
  reals: the result is a multiple of \<open>2 powr ulp_exp x\<close>, the spacing of the doubles
  around \<open>x\<close> (53-bit significands, and the fixed spacing \<open>2 powr - 1074\<close> of the
  subnormal numbers). Overflow to infinity is not modelled; it cannot occur in the
  computation of the label, whose operands are a finite distance divided by 60 and
  numbers below 61.
\<close>

definition round_ties_even :: "real \<Rightarrow> int" where
  "round_ties_even y =
     (let f = \<lfloor>y\<rfloor>; r = y - of_int f
      in if r < 1 / 2 then f else if r > 1 / 2 then f + 1 else if even f then f else f + 1)"

definition ulp_exp :: "real \<Rightarrow> int" where
  "ulp_exp x = max (\<lfloor>log 2 \<bar>x\<bar>\<rfloor> - 52) (- 1074)"

definition fl :: "real \<Rightarrow> real" where
  "fl x =
     (if x = 0 then 0
      else of_int (round_ties_even (x / 2 powr real_of_int (ulp_exp x))) *
           2 powr real_of_int (ulp_exp x))"

subsection \<open>Duration label\<close>

text \<open>
  \<^verbatim>\<open>const durationHours = distance / 60;
  const hours = Math.floor(durationHours);
  const minutes = Math.round((durationHours - hours) * 60);
  ... hours > 0 ? `${hours}h ${minutes}m` : `${minutes} min`\<close>
  The division, the subtraction and the multiplication each round to a double.
  \<^verbatim>\<open>Math.floor\<close> and \<^verbatim>\<open>Math.round\<close> are exact on a double, and \<^verbatim>\<open>Math.round\<close> rounds a
  tie upwards, as \<^const>\<open>round\<close> does.
\<close>

definition duration_label :: "real \<Rightarrow> string" where
  "duration_label km =
     (let durationHours = fl (km / 60);
          hours = \<lfloor>durationHours\<rfloor>;
          minutes = round (fl (fl (durationHours - of_int hours) * 60))
      in if hours > 0 then show_int hours @ ''h '' @ show_int minutes @ ''m''
         else show_int minutes @ '' min'')"

text \<open>The two numbers printed in the label, as functions of the distance.\<close>

definition label_hours :: "real \<Rightarrow> int" where
  "label_hours km = \<lfloor>fl (km / 60)\<rfloor>"

definition label_minutes :: "real \<Rightarrow> int" where
  "label_minutes km = round (fl (fl (fl (km / 60) - of_int (label_hours km)) * 60))"

section \<open>Page and sidebar state\<close>

record route_info =
  distance :: string
  duration :: string

text \<open>
  The \<^verbatim>\<open>useState\<close> cells of \<^verbatim>\<open>Index\<close> (source, destination, route, selectedLocation),
  of \<^verbatim>\<open>AppSidebar\<close> (isCollapsed, isCalculating, routeInfo) and of its two search boxes.
\<close>

record app_state =
  source :: "location option"
  destination :: "location option"
  route :: "point list option"
  selectedLocation :: "point option"
  isCollapsed :: bool
  isCalculating :: bool
  routeInfo :: "route_info option"
  sourceSearch :: search_state
  destinationSearch :: search_state

definition app_init :: app_state where
  "app_init =
     \<lparr>source = None, destination = None, route = None, selectedLocation = None,
      isCollapsed = False, isCalculating = False, routeInfo = None,
      sourceSearch = search_init None, destinationSearch = search_init None\<rparr>"

text \<open>
  \<^verbatim>\<open>calculateRoute\<close> is asynchronous. Its first part runs at the click: the guard
  \<^verbatim>\<open>if (!source || !destination) return;\<close> and \<^verbatim>\<open>setIsCalculating(true)\<close>; it returns the
  state and, when the guard lets it through, the captured pair that the continuation
  will use after the one-second timer.
\<close>

definition calculateRoute_start :: "app_state \<Rightarrow> app_state \<times> (location \<times> location) option" where
  "calculateRoute_start s =
     (case source s of
        None \<Rightarrow> (s, None)
      | Some src \<Rightarrow>
          (case destination s of
             None \<Rightarrow> (s, None)
           | Some dst \<Rightarrow> (s\<lparr>isCalculating := True\<rparr>, Some (src, dst))))"

text \<open>
  The continuation: the points, the distance and the label, then
  \<^verbatim>\<open>setRouteInfo\<close>, \<^verbatim>\<open>onRouteCalculate(points)\<close> (which is \<^verbatim>\<open>setRoute\<close> in \<^verbatim>\<open>Index\<close>)
  and \<^verbatim>\<open>setIsCalculating(false)\<close>.
\<close>

definition calculateRoute_finish :: "location \<times> location \<Rightarrow> app_state \<Rightarrow> app_state" where
  "calculateRoute_finish k s =
     (let src = fst k; dst = snd k;
          points = route_points src dst;
          km = haversine_distance src dst
      in s\<lparr>routeInfo := Some \<lparr>distance = toFixed1 km @ '' km'', duration = duration_label km\<rparr>,
           route := Some points,
           isCalculating := False\<rparr>)"

text \<open>The whole operation when nothing else happens while the timer runs.\<close>

definition calculateRoute :: "app_state \<Rightarrow> app_state" where
  "calculateRoute s =
     (case calculateRoute_start s of
        (s', None) \<Rightarrow> s'
      | (s', Some k) \<Rightarrow> calculateRoute_finish k s')"

text \<open>\<^verbatim>\<open>disabled={!source || !destination || isCalculating}\<close> on the Calculate button.\<close>

definition calculate_disabled :: "app_state \<Rightarrow> bool" where
  "calculate_disabled s = (source s = None \<or> destination s = None \<or> isCalculating s)"

text \<open>
  \<^verbatim>\<open>const tempSource = source;
  onSourceChange(destination); onDestinationChange(tempSource); setRouteInfo(null);\<close>
\<close>

definition swapLocations :: "app_state \<Rightarrow> app_state" where
  "swapLocations s =
     (let tempSource = source s
      in s\<lparr>source := destination s, destination := tempSource, routeInfo := None\<rparr>)"

text \<open>
  The route effect of \<^verbatim>\<open>APMap\<close>: the polyline on the map after the effect has run for
  the given \<^verbatim>\<open>route\<close> prop (\<^verbatim>\<open>if (route && route.length > 0)\<close>).
\<close>

definition routeLayer :: "point list option \<Rightarrow> point list option" where
  "routeLayer r =
     (case r of None \<Rightarrow> None | Some pts \<Rightarrow> if length pts > 0 then Some pts else None)"

section \<open>Properties of the search filter\<close>

subsection \<open>\<open>includes_str\<close> is the substring test\<close>

lemma starts_with_iff: "starts_with s sub \<longleftrightarrow> (\<exists>suf. s = sub @ suf)"
  by (induction s sub rule: starts_with.induct) auto

lemma includes_str_iff: "includes_str s sub \<longleftrightarrow> (\<exists>pre suf. s = pre @ sub @ suf)"
proof (induction s)
  case Nil
  show ?case by (cases sub) auto
next
  case (Cons d s)
  have "(\<exists>pre suf. d # s = pre @ sub @ suf) \<longleftrightarrow>
        (\<exists>suf. d # s = sub @ suf) \<or> (\<exists>pre suf. s = pre @ sub @ suf)"
    (is "?L \<longleftrightarrow> ?A \<or> ?B")
  proof
    assume ?L
    then obtain pre suf where e: "d # s = pre @ sub @ suf" by blast
    show "?A \<or> ?B"
    proof (cases pre)
      case Nil
      with e show ?thesis by auto
    next
      case (Cons p pre')
      with e have "s = pre' @ sub @ suf" by simp
      then show ?thesis by blast
    qed
  next
    assume "?A \<or> ?B"
    then show ?L
    proof
      assume ?A
      then obtain suf where "d # s = [] @ sub @ suf" by auto
      then show ?L by blast
    next
      assume ?B
      then obtain pre suf where "s = pre @ sub @ suf" by blast
      then have "d # s = (d # pre) @ sub @ suf" by simp
      then show ?L by blast
    qed
  qed
  with Cons show ?case by (simp add: starts_with_iff)
qed

lemma includes_str_sublist: "includes_str s sub \<longleftrightarrow> sublist sub s"
  by (simp add: includes_str_iff sublist_def)

text \<open>
  The registry names are ASCII, so their lowercase form does not depend on the engine;
  neither does the filter on an ASCII query.
\<close>

lemma toLowerCase_js:
  "toLowerCase engine (js ''VIsakha Patnam-1'') = js ''visakha patnam-1''"
  by (simp add: toLowerCase_def is_ascii_def ascii_lower_def js_def)

lemma registry_ascii: "list_all (\<lambda>loc. is_ascii (name loc)) popularLocations"
  by (simp add: popularLocations_def Visakhapatnam_def Vijayawada_def is_ascii_def js_def)

lemma filter_cong_registry:
  "(\<And>loc. is_ascii (name loc) \<Longrightarrow> P loc = Q loc) \<Longrightarrow>
   filter P popularLocations = filter Q popularLocations"
  using registry_ascii by (intro filter_cong) (auto simp: list_all_iff)

lemma filteredLocations_ascii_names:
  "filteredLocations engine q =
     filter (\<lambda>loc. includes_str (map ascii_lower (name loc)) (toLowerCase engine q)) popularLocations"
  unfolding filteredLocations_def
  by (rule filter_cong_registry) (simp add: toLowerCase_def)

lemma filtered_VI:
  "filter (\<lambda>loc. includes_str (map ascii_lower (name loc)) (map ascii_lower (js ''VI'')))
     popularLocations = [Visakhapatnam, Vijayawada]"
  by code_simp

lemma filtered_k:
  "map name (filter (\<lambda>loc. includes_str (map ascii_lower (name loc)) (js ''k'')) popularLocations) =
     [js ''Visakhapatnam'', js ''Kakinada'', js ''Kurnool'', js ''Kadapa'', js ''Srikakulam'']"
  by code_simp

text \<open>
  C2: for every query \<open>q\<close> (any sequence of code units) and whatever the engine's case
  conversion is, the filter returns exactly the registry entries whose lowercased name
  contains the lowercased query as a contiguous substring, in registry order: it is the
  registry filtered by that test, a subsequence of the registry, and its members are
  the registry entries passing the test. On an ASCII query the test is the ASCII one in
  every engine, so the upper-case query "VI" finds Visakhapatnam and Vijayawada; and in
  an engine that lowers the Kelvin sign (code unit 8490) to "k", that query finds the
  five towns with a "k" in their name.
\<close>

theorem search_filter_exact:
  "filteredLocations engine q =
     filter (\<lambda>loc. sublist (toLowerCase engine q) (toLowerCase engine (name loc))) popularLocations
   \<and> subseq (filteredLocations engine q) popularLocations
   \<and> set (filteredLocations engine q) =
       {loc. loc \<in> set popularLocations
             \<and> sublist (toLowerCase engine q) (toLowerCase engine (name loc))}
   \<and> (is_ascii q \<longrightarrow>
        filteredLocations engine q =
          filter (\<lambda>loc. sublist (map ascii_lower q) (map ascii_lower (name loc))) popularLocations)
   \<and> filteredLocations engine (js ''VI'') = [Visakhapatnam, Vijayawada]
   \<and> (engine [8490] = js ''k'' \<longrightarrow>
        map name (filteredLocations engine [8490]) =
          [js ''Visakhapatnam'', js ''Kakinada'', js ''Kurnool'', js ''Kadapa'', js ''Srikakulam''])"
proof -
  have 1: "filteredLocations engine q =
     filter (\<lambda>loc. sublist (toLowerCase engine q) (toLowerCase engine (name loc))) popularLocations"
    by (simp add: filteredLocations_def includes_str_sublist)
  have 2: "subseq (filteredLocations engine q) popularLocations"
    by (simp add: filteredLocations_def)
  have 3: "set (filteredLocations engine q) =
       {loc. loc \<in> set popularLocations
             \<and> sublist (toLowerCase engine q) (toLowerCase engine (name loc))}"
    unfolding 1 by auto
  have 4: "is_ascii q \<longrightarrow>
        filteredLocations engine q =
          filter (\<lambda>loc. sublist (map ascii_lower q) (map ascii_lower (name loc))) popularLocations"
    by (simp add: filteredLocations_ascii_names toLowerCase_def includes_str_sublist)
  have "is_ascii (js ''VI'')"
    by (simp add: is_ascii_def js_def)
  then have 5: "filteredLocations engine (js ''VI'') = [Visakhapatnam, Vijayawada]"
    by (simp add: filteredLocations_ascii_names toLowerCase_def filtered_VI)
  have "\<not> is_ascii [8490]"
    by (simp add: is_ascii_def)
  then have 6: "engine [8490] = js ''k'' \<longrightarrow>
        map name (filteredLocations engine [8490]) =
          [js ''Visakhapatnam'', js ''Kakinada'', js ''Kurnool'', js ''Kadapa'', js ''Srikakulam'']"
    by (simp add: filteredLocations_ascii_names toLowerCase_def filtered_k)
  from 1 2 3 4 5 6 show ?thesis
    by blast
qed

text \<open>
  Instances: the mixed-case ASCII query "vIJ" in any engine (here the identity), and the
  Kelvin sign in an engine that lowers it to "k".
\<close>

theorem search_filter_exact_witness:
  "is_ascii (js ''vIJ'')
   \<and> filteredLocations (\<lambda>s. s) (js ''vIJ'') = [Vijayawada]
   \<and> map (\<lambda>u. if u = 8490 then 107 else u) [8490] = js ''k''
   \<and> map name (filteredLocations (map (\<lambda>u. if u = 8490 then 107 else u)) [8490]) =
        [js ''Visakhapatnam'', js ''Kakinada'', js ''Kurnool'', js ''Kadapa'', js ''Srikakulam'']"
proof -
  have a: "is_ascii (js ''vIJ'')"
    by (simp add: is_ascii_def js_def)
  have b: "filter (\<lambda>loc. sublist (map ascii_lower (js ''vIJ'')) (map ascii_lower (name loc)))
             popularLocations = [Vijayawada]"
    unfolding includes_str_sublist [symmetric] by code_simp
  have c: "map (\<lambda>u. if u = 8490 then 107 else u) [8490] = js ''k''"
    by (simp add: js_def)
  have "filteredLocations (\<lambda>s. s) (js ''vIJ'') =
          filter (\<lambda>loc. sublist (map ascii_lower (js ''vIJ'')) (map ascii_lower (name loc)))
            popularLocations"
    using search_filter_exact [of "\<lambda>s. s" "js ''vIJ''"] a by blast
  then have x: "filteredLocations (\<lambda>s. s) (js ''vIJ'') = [Vijayawada]"
    by (simp only: b)
  have y: "map name (filteredLocations (map (\<lambda>u. if u = 8490 then 107 else u)) [8490]) =
        [js ''Visakhapatnam'', js ''Kakinada'', js ''Kurnool'', js ''Kadapa'', js ''Srikakulam'']"
    using search_filter_exact [of "map (\<lambda>u. if u = 8490 then 107 else u)" "[8490]"] c by blast
  from a x c y show ?thesis
    by blast
qed

subsection \<open>The empty query\<close>

text \<open>
  Whatever the user does with a search box, the dropdown is open only while the query
  is non-empty.
\<close>

lemma search_step_inv:
  "(isOpen st \<longrightarrow> query st \<noteq> []) \<Longrightarrow> isOpen (search_step st e) \<longrightarrow> query (search_step st e) \<noteq> []"
  by (cases e) (auto simp: handleInputChange_def handleSelect_def handleClear_def onFocus_def onBlur_def)

lemma search_reach_inv:
  "isOpen (foldl search_step (search_init v) evs) \<longrightarrow> query (foldl search_step (search_init v) evs) \<noteq> []"
proof (induction evs rule: rev_induct)
  case Nil
  show ?case by (simp add: search_init_def)
next
  case (snoc e evs)
  then show ?case using search_step_inv by simp
qed

lemma includes_str_Nil: "includes_str s []"
  by (cases s) simp_all

lemma filter_empty_query: "filteredLocations engine [] = popularLocations"
  by (simp add: filteredLocations_def toLowerCase_def is_ascii_def includes_str_Nil)

text \<open>
  C9: on the empty query the filter is the identity on the registry (all 15 entries).
  Typing the empty string closes the dropdown, so no suggestion is shown; in every
  reachable state of a search box an open dropdown has a non-empty query; and it is
  only the flag that hides the list: were the dropdown open on the empty query, the
  suggestions would be shown.
\<close>

theorem empty_query_identity:
  "filteredLocations engine [] = popularLocations
   \<and> length (filteredLocations engine []) = 15
   \<and> \<not> isOpen (fst (handleInputChange [] st))
   \<and> \<not> suggestions_shown engine (fst (handleInputChange [] st))
   \<and> (isOpen (foldl search_step (search_init v) evs)
        \<longrightarrow> query (foldl search_step (search_init v) evs) \<noteq> [])
   \<and> (query st' = [] \<and> isOpen st' \<longrightarrow> suggestions_shown engine st')"
  using search_reach_inv[of v evs]
  by (simp add: filter_empty_query handleInputChange_def suggestions_shown_def popularLocations_def)

theorem empty_query_identity_witness:
  "isOpen (foldl search_step (search_init None) [InputChange (js ''vi'')])
   \<and> query (foldl search_step (search_init None) [InputChange (js ''vi'')]) \<noteq> []
   \<and> suggestions_shown (\<lambda>s. s) \<lparr>query = [], isOpen = True, isLoading = False\<rparr>"
  using empty_query_identity[of "\<lambda>s. s" "\<lparr>query = [], isOpen = True, isLoading = False\<rparr>" None
          "[InputChange (js ''vi'')]" "\<lparr>query = [], isOpen = True, isLoading = False\<rparr>"]
  by (simp add: handleInputChange_def search_init_def js_def)

section \<open>Properties of the duration label\<close>

subsection \<open>Rounding to a double\<close>

text \<open>
  The rounded value is within half a spacing of the exact one, hence within the
  relative error \<open>2 powr - 53\<close> (the added 1 covers the subnormal range); a
  non-negative number rounds to a non-negative one; and for a number whose exponent is
  known the rounding is a rounding to an integer after scaling.
\<close>

lemma round_ties_even_error: "\<bar>of_int (round_ties_even y) - y\<bar> \<le> 1 / 2"
  unfolding round_ties_even_def Let_def by (auto simp: abs_le_iff)

lemma round_ties_even_nonneg: "0 \<le> y \<Longrightarrow> 0 \<le> round_ties_even y"
  unfolding round_ties_even_def Let_def by auto

lemma ulp_le:
  assumes "x \<noteq> 0"
  shows "(2::real) powr of_int (ulp_exp x) \<le> (\<bar>x\<bar> + 1) / 2 ^ 52"
proof (cases "\<lfloor>log 2 \<bar>x\<bar>\<rfloor> - 52 \<ge> - 1074")
  case True
  then have e: "ulp_exp x = \<lfloor>log 2 \<bar>x\<bar>\<rfloor> - 52"
    by (simp add: ulp_exp_def)
  have "(2::real) powr of_int \<lfloor>log 2 \<bar>x\<bar>\<rfloor> \<le> 2 powr log 2 \<bar>x\<bar>"
    by (intro powr_mono) simp_all
  also have "\<dots> = \<bar>x\<bar>"
    using assms by simp
  finally have "(2::real) powr of_int \<lfloor>log 2 \<bar>x\<bar>\<rfloor> \<le> \<bar>x\<bar>" .
  moreover have "(2::real) powr of_int (ulp_exp x) = 2 powr of_int \<lfloor>log 2 \<bar>x\<bar>\<rfloor> / 2 ^ 52"
    unfolding e by (simp add: powr_diff powr_realpow [symmetric])
  ultimately show ?thesis
    by (simp add: divide_right_mono)
next
  case False
  then have e: "ulp_exp x = - 1074"
    by (simp add: ulp_exp_def)
  have "(2::real) powr of_int (- 1074) \<le> 2 powr of_int (- 52)"
    by (intro powr_mono) simp_all
  also have "\<dots> = 1 / 2 ^ 52"
    by (simp add: powr_minus_divide)
  also have "\<dots> \<le> (\<bar>x\<bar> + 1) / 2 ^ 52"
    by (simp add: divide_right_mono)
  finally show ?thesis
    unfolding e .
qed

lemma fl_error: "\<bar>fl x - x\<bar> \<le> (\<bar>x\<bar> + 1) / 2 ^ 53"
proof (cases "x = 0")
  case True
  then show ?thesis by (simp add: fl_def)
next
  case False
  define u :: real where "u = 2 powr of_int (ulp_exp x)"
  have u: "0 < u"
    by (simp add: u_def)
  have "fl x - x = u * (of_int (round_ties_even (x / u)) - x / u)"
    using False u by (simp add: fl_def u_def field_simps)
  then have "\<bar>fl x - x\<bar> = u * \<bar>of_int (round_ties_even (x / u)) - x / u\<bar>"
    using u by (simp add: abs_mult)
  also have "\<dots> \<le> u * (1 / 2)"
    using u round_ties_even_error [of "x / u"] by (intro mult_left_mono) simp_all
  also have "\<dots> \<le> (\<bar>x\<bar> + 1) / 2 ^ 52 * (1 / 2)"
    using ulp_le [OF False] by (intro mult_right_mono) (simp_all add: u_def)
  also have "\<dots> = (\<bar>x\<bar> + 1) / 2 ^ 53"
    by simp
  finally show ?thesis .
qed

lemma fl_nonneg: "0 \<le> x \<Longrightarrow> 0 \<le> fl x"
  unfolding fl_def by (auto intro!: mult_nonneg_nonneg round_ties_even_nonneg divide_nonneg_nonneg)

lemma fl_scaled:
  fixes k :: nat and x :: real
  assumes "2 ^ 52 \<le> \<bar>x\<bar> * 2 ^ k" "\<bar>x\<bar> * 2 ^ k < 2 ^ 53" "k \<le> 1074"
  shows "fl x = of_int (round_ties_even (x * 2 ^ k)) / 2 ^ k"
proof -
  have x: "x \<noteq> 0"
    using assms(1) by auto
  have p: "(2::real) ^ k = 2 powr of_int (int k)"
    by (simp add: powr_realpow)
  have "(2::real) powr of_int (52 - int k) \<le> \<bar>x\<bar>"
    using assms(1) by (simp add: powr_diff p powr_realpow [symmetric] field_simps)
  moreover have "\<bar>x\<bar> < (2::real) powr (of_int (52 - int k) + 1)"
    using assms(2) by (simp add: powr_diff powr_add p powr_realpow [symmetric] field_simps)
  ultimately have "\<lfloor>log 2 \<bar>x\<bar>\<rfloor> = 52 - int k"
    using x by (intro floor_log_eq_powr_iff [THEN iffD2]) simp_all
  then have e: "ulp_exp x = - int k"
    using assms(3) by (simp add: ulp_exp_def)
  have "(2::real) powr of_int (- int k) = 1 / 2 ^ k"
    by (simp add: powr_minus p divide_inverse)
  then show ?thesis
    using x by (simp add: fl_def e)
qed


lemma fl_eval:
  fixes k :: nat and x y :: real
  assumes "round_ties_even (x * 2 ^ k) = n"
    and "2 ^ 52 \<le> \<bar>x\<bar> * 2 ^ k" "\<bar>x\<bar> * 2 ^ k < 2 ^ 53" "k \<le> 1074"
    and "y = of_int n / 2 ^ k"
  shows "fl x = y"
  using fl_scaled [OF assms(2-4)] assms(1,5) by simp

subsection \<open>The hours and the minutes\<close>

text \<open>
  For distances up to a million kilometres: the quotient, the hours, and the remainder
  in minutes as the code computes them, against their exact values.
\<close>

lemma duration_label_eq:
  "duration_label km =
     (if label_hours km > 0
      then show_int (label_hours km) @ ''h '' @ show_int (label_minutes km) @ ''m''
      else show_int (label_minutes km) @ '' min'')"
  by (simp add: duration_label_def label_hours_def label_minutes_def Let_def)

lemma label_hours_pos: "(0 < label_hours km) = (1 \<le> fl (km / 60))"
  unfolding label_hours_def by linarith

lemma quotient_error:
  fixes km :: real
  assumes "0 \<le> km" "km \<le> 10 ^ 6"
  shows "\<bar>fl (km / 60) - km / 60\<bar> \<le> 16668 / 2 ^ 53"
proof -
  have "\<bar>fl (km / 60) - km / 60\<bar> \<le> (\<bar>km / 60\<bar> + 1) / 2 ^ 53"
    by (rule fl_error)
  also have "\<dots> \<le> 16668 / 2 ^ 53"
    using assms by (intro divide_right_mono) simp_all
  finally show ?thesis .
qed

lemma label_hours_eq:
  fixes km :: real
  assumes "0 \<le> h" "60 * of_int h + 1 / 10 ^ 9 \<le> km" "km \<le> 60 * (of_int h + 1) - 1 / 10 ^ 9"
    and "km \<le> 10 ^ 6"
  shows "label_hours km = h"
proof -
  define e :: real where "e = 16668 / 2 ^ 53"
  define d :: real where "d = 1 / 10 ^ 9"
  define q where "q = km / 60"
  have d: "0 < d" "60 * e < d"
    by (simp_all add: d_def e_def)
  have k: "60 * of_int h + d \<le> 60 * q" "60 * q \<le> 60 * of_int h + 60 - d"
    using assms(2,3) by (simp_all add: d_def q_def algebra_simps)
  have "0 \<le> 60 * real_of_int h"
    using assms(1) by simp
  then have "0 \<le> 60 * q"
    using k d by linarith
  then have "0 \<le> km"
    by (simp add: q_def)
  then have b: "\<bar>fl q - q\<bar> \<le> e"
    unfolding e_def q_def using assms(4) by (rule quotient_error)
  have "of_int h \<le> fl q"
    using b k d by linarith
  moreover have "fl q < of_int h + 1"
    using b k d by linarith
  ultimately show ?thesis
    unfolding label_hours_def q_def by (intro floor_unique)
qed

lemma remainder_error:
  fixes km :: real
  assumes "0 \<le> km" "km \<le> 10 ^ 6"
  shows "\<bar>fl (fl (fl (km / 60) - of_int (label_hours km)) * 60) - (km - 60 * of_int (label_hours km))\<bar>
           \<le> 1 / (2 * 10 ^ 9)"
    and "0 \<le> fl (fl (fl (km / 60) - of_int (label_hours km)) * 60)"
proof -
  define q where "q = km / 60"
  define dh where "dh = fl q"
  define H :: real where "H = of_int (label_hours km)"
  define t0 where "t0 = dh - H"
  define t where "t = fl t0"
  define p where "p = t * 60"
  define r where "r = fl p"
  define e :: real where "e = 1 / 2 ^ 53"
  define d :: real where "d = 1 / (2 * 10 ^ 9)"
  have d: "0 \<le> e" "120 * e \<le> 1" "1000262 * e \<le> d"
    by (simp_all add: d_def e_def)
  have "\<bar>dh - q\<bar> \<le> 16668 / 2 ^ 53"
    unfolding dh_def q_def using assms by (rule quotient_error)
  then have e1: "\<bar>dh - q\<bar> \<le> 16668 * e"
    by (simp add: e_def)
  have t0: "0 \<le> t0" "t0 < 1"
    unfolding t0_def H_def dh_def q_def label_hours_def by linarith+
  have "\<bar>t - t0\<bar> \<le> (\<bar>t0\<bar> + 1) / 2 ^ 53"
    unfolding t_def by (rule fl_error)
  also have "\<dots> \<le> 2 / 2 ^ 53"
    using t0 by (intro divide_right_mono) simp_all
  finally have e2: "\<bar>t - t0\<bar> \<le> 2 * e"
    by (simp add: e_def)
  have tn: "0 \<le> t"
    unfolding t_def using t0 by (intro fl_nonneg) simp
  have "t \<le> 2"
    using e2 t0 d by linarith
  then have pb: "0 \<le> p" "p \<le> 120"
    using tn by (simp_all add: p_def)
  have "t * 60 \<le> 61"
    using e2 t0 d by linarith
  then have pb': "p \<le> 61"
    by (simp add: p_def)
  have "\<bar>r - p\<bar> \<le> (\<bar>p\<bar> + 1) / 2 ^ 53"
    unfolding r_def by (rule fl_error)
  also have "\<dots> \<le> 62 / 2 ^ 53"
    using pb pb' by (intro divide_right_mono) simp_all
  finally have e3: "\<bar>r - p\<bar> \<le> 62 * e"
    by (simp add: e_def)
  have s: "r - (km - 60 * H) = (r - p) + 60 * (t - t0) + 60 * (dh - q)"
    by (simp add: p_def t0_def q_def)
  note b = e1 [unfolded abs_le_iff] e2 [unfolded abs_le_iff] e3 [unfolded abs_le_iff]
  have "r - (km - 60 * H) \<le> d"
    using s b d by argo
  moreover have "- (r - (km - 60 * H)) \<le> d"
    using s b d by argo
  ultimately have "\<bar>r - (km - 60 * H)\<bar> \<le> d"
    by (simp add: abs_le_iff)
  then show "\<bar>fl (fl (fl (km / 60) - of_int (label_hours km)) * 60) - (km - 60 * of_int (label_hours km))\<bar>
           \<le> 1 / (2 * 10 ^ 9)"
    by (simp add: r_def p_def t_def t0_def dh_def q_def H_def d_def)
  have "0 \<le> r"
    unfolding r_def using pb by (intro fl_nonneg)
  then show "0 \<le> fl (fl (fl (km / 60) - of_int (label_hours km)) * 60)"
    by (simp add: r_def p_def t_def t0_def dh_def q_def H_def)
qed

lemma label_minutes_eq:
  fixes km :: real
  assumes "0 \<le> km" "km \<le> 10 ^ 6"
    and "of_int m - 1 / 2 + 1 / 10 ^ 9 \<le> km - 60 * of_int (label_hours km)"
    and "km - 60 * of_int (label_hours km) \<le> of_int m + 1 / 2 - 1 / 10 ^ 9"
  shows "label_minutes km = m"
proof -
  define r where "r = fl (fl (fl (km / 60) - of_int (label_hours km)) * 60)"
  define x where "x = km - 60 * of_int (label_hours km)"
  define d :: real where "d = 1 / (2 * 10 ^ 9)"
  have d: "0 < d"
    by (simp add: d_def)
  have "\<bar>r - x\<bar> \<le> d"
    unfolding r_def x_def d_def using assms(1,2) by (rule remainder_error(1))
  moreover have "of_int m - 1 / 2 + 2 * d \<le> x" "x \<le> of_int m + 1 / 2 - 2 * d"
    using assms(3,4) by (simp_all add: x_def d_def)
  ultimately have b: "\<bar>r - x\<bar> \<le> d" "of_int m - 1 / 2 + 2 * d \<le> x"
      "x \<le> of_int m + 1 / 2 - 2 * d" .
  have "of_int m \<le> r + 1 / 2"
    using b d by linarith
  moreover have "r + 1 / 2 < of_int m + 1"
    using b d by linarith
  ultimately have "\<lfloor>r + 1 / 2\<rfloor> = m"
    by (intro floor_unique)
  then show ?thesis
    by (simp add: label_minutes_def round_def r_def)
qed

lemma label_total:
  fixes km :: real
  assumes "0 \<le> km" "km \<le> 10 ^ 6"
  shows "\<bar>60 * of_int (label_hours km) + of_int (label_minutes km) - km\<bar> \<le> 1 / 2 + 1 / 10 ^ 9"
    and "0 \<le> label_hours km" and "0 \<le> label_minutes km" and "label_minutes km \<le> 60"
proof -
  define r where "r = fl (fl (fl (km / 60) - of_int (label_hours km)) * 60)"
  define H :: real where "H = of_int (label_hours km)"
  define d :: real where "d = 1 / (2 * 10 ^ 9)"
  define e :: real where "e = 16668 / 2 ^ 53"
  have d: "0 < d" "60 * e \<le> d" "d \<le> 1 / 8"
    by (simp_all add: d_def e_def)
  have m: "label_minutes km = round r"
    by (simp add: label_minutes_def r_def)
  have e: "\<bar>r - (km - 60 * H)\<bar> \<le> d"
    unfolding r_def H_def d_def using assms by (rule remainder_error(1))
  have r0: "0 \<le> r"
    unfolding r_def using assms by (rule remainder_error(2))
  have "\<bar>of_int (round r) - r\<bar> \<le> 1 / 2"
    by (rule of_int_round_abs_le)
  then have "\<bar>60 * H + of_int (round r) - km\<bar> \<le> 1 / 2 + 2 * d"
    using e d by linarith
  then show "\<bar>60 * of_int (label_hours km) + of_int (label_minutes km) - km\<bar> \<le> 1 / 2 + 1 / 10 ^ 9"
    by (simp add: m H_def d_def)
  have "0 \<le> fl (km / 60)"
    using assms by (intro fl_nonneg) simp
  then show "0 \<le> label_hours km"
    by (simp add: label_hours_def)
  show "0 \<le> label_minutes km"
    unfolding m round_def using r0 by simp
  define q where "q = km / 60"
  have q: "60 * q = km"
    by (simp add: q_def)
  have "fl q - H < 1"
    unfolding label_hours_def H_def q_def by linarith
  moreover have "\<bar>fl q - q\<bar> \<le> e"
    unfolding e_def q_def using assms by (rule quotient_error)
  ultimately have "km - 60 * H < 60 + d"
    using d q by linarith
  then have "r + 1 / 2 < 61"
    using e d by linarith
  then show "label_minutes km \<le> 60"
    unfolding m round_def by (simp add: floor_less_iff)
qed

subsection \<open>The computation at given distances\<close>

lemma eval_30: "label_hours 30 = 0" "label_minutes 30 = 30"
proof -
  have a: "fl (30 / 60) = 1 / 2"
    by (rule fl_eval [where k = 53 and n = 4503599627370496]; code_simp)
  have b: "\<lfloor>1 / 2 :: real\<rfloor> = 0"
    by simp
  have c: "fl (1 / 2 - 0) = 1 / 2"
    by (rule fl_eval [where k = 53 and n = 4503599627370496]; code_simp)
  have d: "fl (1 / 2 * 60) = 30"
    by (rule fl_eval [where k = 48 and n = 8444249301319680]; code_simp)
  have e: "round (30 :: real) = 30"
    by (simp add: round_def)
  show "label_hours 30 = 0"
    by (simp only: label_hours_def a b)
  show "label_minutes 30 = 30"
    by (simp only: label_minutes_def label_hours_def a b c d e of_int_numeral of_int_0 of_int_1)
qed

lemma eval_150: "label_hours 150 = 2" "label_minutes 150 = 30"
proof -
  have a: "fl (150 / 60) = 5 / 2"
    by (rule fl_eval [where k = 51 and n = 5629499534213120]; code_simp)
  have b: "\<lfloor>5 / 2 :: real\<rfloor> = 2"
    by simp
  have c: "fl (5 / 2 - 2) = 1 / 2"
    by (rule fl_eval [where k = 53 and n = 4503599627370496]; code_simp)
  have d: "fl (1 / 2 * 60) = 30"
    by (rule fl_eval [where k = 48 and n = 8444249301319680]; code_simp)
  have e: "round (30 :: real) = 30"
    by (simp add: round_def)
  show "label_hours 150 = 2"
    by (simp only: label_hours_def a b)
  show "label_minutes 150 = 30"
    by (simp only: label_minutes_def label_hours_def a b c d e of_int_numeral of_int_0 of_int_1)
qed

lemma eval_64_5: "label_hours 64.5 = 1" "label_minutes 64.5 = 4"
proof -
  have a: "fl (64.5 / 60) = 4841369599423283 / 4503599627370496"
    by (rule fl_eval [where k = 52 and n = 4841369599423283]; code_simp)
  have b: "\<lfloor>4841369599423283 / 4503599627370496 :: real\<rfloor> = 1"
    by simp
  have c: "fl (4841369599423283 / 4503599627370496 - 1) = 337769972052787 / 4503599627370496"
    by (rule fl_eval [where k = 56 and n = 5404319552844592]; code_simp)
  have d: "fl (337769972052787 / 4503599627370496 * 60) = 5066549580791805 / 1125899906842624"
    by (rule fl_eval [where k = 50 and n = 5066549580791805]; code_simp)
  have e: "round (5066549580791805 / 1125899906842624 :: real) = 4"
    by (simp add: round_def)
  show "label_hours 64.5 = 1"
    by (simp only: label_hours_def a b)
  show "label_minutes 64.5 = 4"
    by (simp only: label_minutes_def label_hours_def a b c d e of_int_numeral of_int_0 of_int_1)
qed

lemma eval_359_5: "label_hours 359.5 = 5" "label_minutes 359.5 = 59"
proof -
  have a: "fl (359.5 / 60) = 6746016941832055 / 1125899906842624"
    by (rule fl_eval [where k = 50 and n = 6746016941832055]; code_simp)
  have b: "\<lfloor>6746016941832055 / 1125899906842624 :: real\<rfloor> = 5"
    by simp
  have c: "fl (6746016941832055 / 1125899906842624 - 5) = 1116517407618935 / 1125899906842624"
    by (rule fl_eval [where k = 53 and n = 8932139260951480]; code_simp)
  have d: "fl (1116517407618935 / 1125899906842624 * 60) = 2093470139285503 / 35184372088832"
    by (rule fl_eval [where k = 47 and n = 8373880557142012]; code_simp)
  have e: "round (2093470139285503 / 35184372088832 :: real) = 59"
    by (simp add: round_def)
  show "label_hours 359.5 = 5"
    by (simp only: label_hours_def a b)
  show "label_minutes 359.5 = 59"
    by (simp only: label_minutes_def label_hours_def a b c d e of_int_numeral of_int_0 of_int_1)
qed

lemma eval_30_5m: "label_hours (30.5 - 1 / 2 ^ 48) = 0" "label_minutes (30.5 - 1 / 2 ^ 48) = 31"
proof -
  have a: "fl ((30.5 - 1 / 2 ^ 48) / 60) = 1144664905290001 / 2251799813685248"
    by (rule fl_eval [where k = 53 and n = 4578659621160004]; code_simp)
  have b: "\<lfloor>1144664905290001 / 2251799813685248 :: real\<rfloor> = 0"
    by simp
  have c: "fl (1144664905290001 / 2251799813685248 - 0) = 1144664905290001 / 2251799813685248"
    by (rule fl_eval [where k = 53 and n = 4578659621160004]; code_simp)
  have d: "fl (1144664905290001 / 2251799813685248 * 60) = 61 / 2"
    by (rule fl_eval [where k = 48 and n = 8584986789675008]; code_simp)
  have e: "round (61 / 2 :: real) = 31"
    by (simp add: round_def)
  show "label_hours (30.5 - 1 / 2 ^ 48) = 0"
    by (simp only: label_hours_def a b)
  show "label_minutes (30.5 - 1 / 2 ^ 48) = 31"
    by (simp only: label_minutes_def label_hours_def a b c d e of_int_numeral of_int_0 of_int_1)
qed

lemma show_int_digits:
  "show_int 0 = ''0''" "show_int 1 = ''1''" "show_int 2 = ''2''" "show_int 3 = ''3''"
  "show_int 4 = ''4''" "show_int 5 = ''5''" "show_int 30 = ''30''" "show_int 31 = ''31''"
  "show_int 59 = ''59''" "show_int 60 = ''60''"
  by code_simp+

lemma label_30: "duration_label 30 = ''30 min''"
  by (simp only: duration_label_eq eval_30 show_int_digits) simp

lemma label_150: "duration_label 150 = ''2h 30m''"
  by (simp only: duration_label_eq eval_150 show_int_digits) simp

lemma label_64_5: "duration_label 64.5 = ''1h 4m''"
  by (simp only: duration_label_eq eval_64_5 show_int_digits) simp

lemma label_359_5: "duration_label 359.5 = ''5h 59m''"
  by (simp only: duration_label_eq eval_359_5 show_int_digits) simp

lemma label_30_5m: "duration_label (30.5 - 1 / 2 ^ 48) = ''31 min''"
  by (simp only: duration_label_eq eval_30_5m show_int_digits) simp

text \<open>
  C5 as stated fails on the minutes: they are not always the exact remaining minutes
  rounded to the nearest integer. At 64.5 km the exact remainder is 4.5 minutes, which
  rounds to 5, and the label says 4; at 30.5 - 2 powr - 48 km (the double printed as
  30.499999999999996) the exact remainder is below 30.5 and rounds to 30, and the label
  says 31.
\<close>

theorem duration_format_counterexample:
  "duration_label 64.5 = ''1h 4m''
   \<and> round ((64.5 / 60 - of_int \<lfloor>64.5 / 60 :: real\<rfloor>) * 60 :: real) = 5
   \<and> duration_label (30.5 - 1 / 2 ^ 48) = ''31 min''
   \<and> round (((30.5 - 1 / 2 ^ 48) / 60 - of_int \<lfloor>(30.5 - 1 / 2 ^ 48) / 60 :: real\<rfloor>) * 60 :: real) = 30"
proof -
  have "\<lfloor>64.5 / 60 :: real\<rfloor> = 1"
    by simp
  then have 1: "round ((64.5 / 60 - of_int \<lfloor>64.5 / 60 :: real\<rfloor>) * 60 :: real) = 5"
    by (simp add: round_def)
  have "\<lfloor>(30.5 - 1 / 2 ^ 48) / 60 :: real\<rfloor> = 0"
    by simp
  then have 2: "round (((30.5 - 1 / 2 ^ 48) / 60 - of_int \<lfloor>(30.5 - 1 / 2 ^ 48) / 60 :: real\<rfloor>) * 60 :: real) = 30"
    by (simp add: round_def)
  from label_64_5 1 label_30_5m 2 show ?thesis
    by blast
qed

text \<open>
  C5, amended: for a distance between 0 and a million kilometres, the duration is the
  distance divided by 60, computed in double precision; the label is "Hh Mm" when that
  duration is at least one hour and "M min" otherwise, where H is its integer part and
  M is the double remainder \<open>(duration - H) * 60\<close> rounded to the nearest integer by
  \<^verbatim>\<open>Math.round\<close>. Then \<open>60 H + M\<close> differs from the distance by at most half a minute
  plus \<open>10 powr - 9\<close>, H and M are not negative and M is at most 60, and M is the nearest
  integer \<open>m\<close> to the exact remainder whenever that remainder is at least \<open>10 powr - 9\<close>
  away from the two half-minute marks around \<open>m\<close>. 30 km gives "30 min" and 150 km gives
  "2h 30m".
\<close>

theorem duration_format:
  "(0 \<le> km \<and> km \<le> 10 ^ 6 \<longrightarrow>
      duration_label km =
        (if 1 \<le> fl (km / 60)
         then show_int (label_hours km) @ ''h '' @ show_int (label_minutes km) @ ''m''
         else show_int (label_minutes km) @ '' min'')
      \<and> label_hours km = \<lfloor>fl (km / 60)\<rfloor>
      \<and> label_minutes km = round (fl (fl (fl (km / 60) - of_int (label_hours km)) * 60))
      \<and> \<bar>60 * of_int (label_hours km) + of_int (label_minutes km) - km\<bar> \<le> 1 / 2 + 1 / 10 ^ 9
      \<and> 0 \<le> label_hours km \<and> 0 \<le> label_minutes km \<and> label_minutes km \<le> 60
      \<and> (of_int m - 1 / 2 + 1 / 10 ^ 9 \<le> km - 60 * of_int (label_hours km)
           \<and> km - 60 * of_int (label_hours km) \<le> of_int m + 1 / 2 - 1 / 10 ^ 9
           \<longrightarrow> label_minutes km = m))
   \<and> duration_label 30 = ''30 min''
   \<and> duration_label 150 = ''2h 30m''"
proof -
  have 1: "duration_label km =
     (if 1 \<le> fl (km / 60)
      then show_int (label_hours km) @ ''h '' @ show_int (label_minutes km) @ ''m''
      else show_int (label_minutes km) @ '' min'')"
    by (simp only: duration_label_eq label_hours_pos)
  have 2: "label_hours km = \<lfloor>fl (km / 60)\<rfloor>"
    by (simp add: label_hours_def)
  have 3: "label_minutes km = round (fl (fl (fl (km / 60) - of_int (label_hours km)) * 60))"
    by (simp add: label_minutes_def)
  have 4: "0 \<le> km \<and> km \<le> 10 ^ 6 \<longrightarrow>
        \<bar>60 * of_int (label_hours km) + of_int (label_minutes km) - km\<bar> \<le> 1 / 2 + 1 / 10 ^ 9
        \<and> 0 \<le> label_hours km \<and> 0 \<le> label_minutes km \<and> label_minutes km \<le> 60
        \<and> (of_int m - 1 / 2 + 1 / 10 ^ 9 \<le> km - 60 * of_int (label_hours km)
             \<and> km - 60 * of_int (label_hours km) \<le> of_int m + 1 / 2 - 1 / 10 ^ 9
             \<longrightarrow> label_minutes km = m)"
    using label_total [of km] label_minutes_eq [of km m] by blast
  from 1 2 3 4 label_30 label_150 show ?thesis
    by blast
qed

theorem duration_format_witness:
  "(0::real) \<le> 150 \<and> (150::real) \<le> 10 ^ 6
   \<and> label_hours 150 = 2 \<and> label_minutes 150 = 30
   \<and> \<bar>60 * of_int (label_hours 150) + of_int (label_minutes 150) - (150::real)\<bar> \<le> 1 / 2 + 1 / 10 ^ 9
   \<and> duration_label 150 = ''2h 30m''"
proof -
  have h: "(0::real) \<le> 150 \<and> (150::real) \<le> 10 ^ 6"
    by simp
  have m: "of_int 30 - 1 / 2 + 1 / 10 ^ 9 \<le> (150::real) - 60 * of_int (label_hours 150)
           \<and> (150::real) - 60 * of_int (label_hours 150) \<le> of_int 30 + 1 / 2 - 1 / 10 ^ 9"
    by (simp add: eval_150)
  from duration_format [of 150 30] h m have
    "label_minutes 150 = 30"
    "\<bar>60 * of_int (label_hours 150) + of_int (label_minutes 150) - (150::real)\<bar> \<le> 1 / 2 + 1 / 10 ^ 9"
    "duration_label 150 = ''2h 30m''"
    by blast+
  with h eval_150(1) show ?thesis
    by blast
qed

text \<open>
  C10 as stated fails at the lower end of its range: 359.5 km lies in the range for
  \<open>h = 5\<close>, but the double remainder is just below 59.5 and the label is "5h 59m".
\<close>

theorem minutes_can_be_60_counterexample:
  "(0::int) \<le> 5
   \<and> 60 * of_int 5 + 59.5 \<le> (359.5::real)
   \<and> (359.5::real) < 60 * (of_int 5 + 1)
   \<and> duration_label 359.5 = ''5h 59m''"
  using label_359_5 by simp

text \<open>
  C10, amended: the minutes of the label can be 60. For an integer \<open>h \<ge> 0\<close> and a
  distance \<open>km\<close> of at most a million kilometres with
  \<open>60 h + 59.5 + 10 powr - 9 \<le> km \<le> 60 (h + 1) - 10 powr - 9\<close>, the label is "60 min" when
  \<open>h = 0\<close> and "Hh 60m" when \<open>h \<ge> 1\<close>; it does not roll over to the next hour.
\<close>

theorem minutes_can_be_60:
  "0 \<le> h \<Longrightarrow> 60 * of_int h + 59.5 + 1 / 10 ^ 9 \<le> km \<Longrightarrow>
   km \<le> 60 * (of_int h + 1) - 1 / 10 ^ 9 \<Longrightarrow> km \<le> 10 ^ 6 \<Longrightarrow>
   duration_label km = (if h = 0 then ''60 min'' else show_int h @ ''h 60m'')"
proof -
  assume a: "0 \<le> h" "60 * of_int h + 59.5 + 1 / 10 ^ 9 \<le> km"
    "km \<le> 60 * (of_int h + 1) - 1 / 10 ^ 9" "km \<le> 10 ^ 6"
  have "60 * real_of_int h + 1 / 10 ^ 9 \<le> km"
    using a(2) by simp
  then have H: "label_hours km = h"
    using a by (intro label_hours_eq) simp_all
  have "0 \<le> 60 * real_of_int h"
    using a(1) by simp
  then have "0 \<le> km"
    using a(2) by simp
  then have M: "label_minutes km = 60"
    using a by (intro label_minutes_eq) (simp_all add: H algebra_simps)
  show ?thesis
    using a(1) by (simp add: duration_label_eq H M show_int_digits)
qed

theorem minutes_can_be_60_witness:
  "duration_label 59.7 = ''60 min'' \<and> duration_label 179.7 = ''2h 60m''"
  using minutes_can_be_60 [of 0 "59.7"] minutes_can_be_60 [of 2 "179.7"]
  by (simp add: show_int_digits)

section \<open>Properties of the route generator\<close>

subsection \<open>The loop\<close>

lemma route_loop_eq:
  "route_loop src dst steps i points = points @ map (route_point src dst steps) [i..<Suc steps]"
proof (induction src dst steps i points rule: route_loop.induct)
  case (1 src dst steps i points)
  show ?case
  proof (cases "i \<le> steps")
    case True
    then have u: "[i..<Suc steps] = i # [Suc i..<Suc steps]"
      by (simp add: upt_conv_Cons)
    have "route_loop src dst steps i points =
            route_loop src dst steps (i + 1) (points @ [route_point src dst steps i])"
      by (subst route_loop.simps) (simp add: True Let_def route_point_def)
    also have "\<dots> = (points @ [route_point src dst steps i]) @
                     map (route_point src dst steps) [i + 1..<Suc steps]"
      using "1.IH" [OF True refl refl refl refl] by (simp add: route_point_def [abs_def])
    finally show ?thesis
      by (simp only: u) simp
  next
    case False
    then show ?thesis
      by (subst route_loop.simps) simp
  qed
qed

lemma route_points_eq: "route_points src dst = map (route_point src dst 20) [0..<21]"
  by (simp add: route_points_def route_loop_eq)

lemma route_points_length: "length (route_points src dst) = 21"
  by (simp add: route_points_eq)

lemma route_points_nth:
  "i \<le> 20 \<Longrightarrow> route_points src dst ! i =
     (lat src + (lat dst - lat src) * (real i / 20) + sin (real i / 20 * pi) * 0.2,
      lng src + (lng dst - lng src) * (real i / 20))"
  by (simp add: route_points_eq route_point_def)

text \<open>
  C1: for every source and destination the generator returns 21 points; point \<open>i\<close>
  (for \<open>i\<close> from 0 to 20, with \<open>t = i / 20\<close>) has latitude
  \<open>source.lat + (destination.lat - source.lat) t + sin (t pi) 0.2\<close> and longitude
  \<open>source.lng + (destination.lng - source.lng) t\<close>. The first point is the source
  and, the offset being 0 at \<open>t = 1\<close> in exact arithmetic, the last point is the
  destination.
\<close>

theorem route_generator_points:
  "length (route_points src dst) = 21
   \<and> (\<forall>i\<le>20. route_points src dst ! i =
        (lat src + (lat dst - lat src) * (real i / 20) + sin (real i / 20 * pi) * 0.2,
         lng src + (lng dst - lng src) * (real i / 20)))
   \<and> route_points src dst ! 0 = (lat src, lng src)
   \<and> route_points src dst ! 20 = (lat dst, lng dst)"
  by (simp add: route_points_length route_points_nth)

theorem route_generator_points_witness:
  "route_points Visakhapatnam Vijayawada ! 10 = (17.2965, 81.93325)
   \<and> route_points Visakhapatnam Vijayawada ! 0 = (17.6868, 83.2185)
   \<and> route_points Visakhapatnam Vijayawada ! 20 = (16.5062, 80.6480)"
  using route_generator_points [of Visakhapatnam Vijayawada]
  by (simp add: Visakhapatnam_def Vijayawada_def)

subsection \<open>Haversine distance\<close>

text \<open>
  In exact arithmetic the quantity under the square roots lies between 0 and 1 for all
  coordinates.
\<close>

lemma haversine_a_range: "0 \<le> haversine_a src dst \<and> haversine_a src dst \<le> 1"
proof -
  define u where "u = lat src * pi / 180"
  define v where "v = lat dst * pi / 180"
  define s where "s = sin ((lng dst - lng src) * pi / 180 / 2) * sin ((lng dst - lng src) * pi / 180 / 2)"
  define k where "k = cos u * cos v"
  define q where "q = sin ((v - u) / 2) * sin ((v - u) / 2)"
  have a: "haversine_a src dst = q + k * s"
    by (simp add: haversine_a_def Let_def u_def v_def s_def k_def q_def diff_divide_distrib left_diff_distrib)
  have s0: "0 \<le> s" unfolding s_def by simp
  have s1: "s \<le> 1"
    unfolding s_def using sin_squared_eq [of "(lng dst - lng src) * pi / 180 / 2"]
    by (simp add: power2_eq_square)
  have q0: "0 \<le> q" unfolding q_def by simp
  have "v - u = 2 * ((v - u) / 2)"
    by (simp add: field_simps)
  then have "cos (v - u) = cos (2 * ((v - u) / 2))"
    by (rule arg_cong)
  also have "\<dots> = 1 - 2 * q"
    by (simp only: cos_double_sin q_def power2_eq_square)
  finally have cq: "cos (v - u) = 1 - 2 * q" .
  then have qe: "q = (1 - k - sin u * sin v) / 2"
    by (simp add: cos_diff k_def mult.commute)
  have "cos (u + v) = k - sin u * sin v"
    by (simp add: cos_add k_def)
  then have qk: "q + k = (1 + cos (u + v)) / 2"
    using qe by simp
  have lo: "0 \<le> (1 + c) / 2" if "- 1 \<le> c" for c :: real
    using that by simp
  have hi: "(1 + c) / 2 \<le> 1" if "c \<le> 1" for c :: real
    using that by simp
  have qk0: "0 \<le> q + k"
    unfolding qk by (rule lo) (rule cos_ge_minus_one)
  have qk1: "q + k \<le> 1"
    unfolding qk by (rule hi) (rule cos_le_one)
  have "q = (1 - cos (v - u)) / 2"
    using cq by simp
  also have "\<dots> = (1 + - cos (v - u)) / 2"
    by simp
  also have "\<dots> \<le> 1"
    by (rule hi) simp
  finally have q1: "q \<le> 1" .
  have "0 \<le> q + k * s"
  proof (cases "0 \<le> k")
    case True
    then show ?thesis using q0 s0 by simp
  next
    case False
    then have "k \<le> k * s" using s1 by (simp add: mult_le_cancel_left2)
    then show ?thesis using qk0 by linarith
  qed
  moreover have "q + k * s \<le> 1"
  proof (cases "0 \<le> k")
    case True
    then have "k * s \<le> k" using s1 by (simp add: mult_left_le)
    then show ?thesis using qk1 by linarith
  next
    case False
    then have "k * s \<le> 0" using s0 by (simp add: mult_le_0_iff)
    then show ?thesis using q1 by linarith
  qed
  ultimately show ?thesis using a by simp
qed

lemma haversine_a_sym: "haversine_a A B = haversine_a B A"
proof -
  have 1: "(lat A - lat B) * pi / 180 / 2 = - ((lat B - lat A) * pi / 180 / 2)"
    by (simp add: field_simps)
  have 2: "(lng A - lng B) * pi / 180 / 2 = - ((lng B - lng A) * pi / 180 / 2)"
    by (simp add: field_simps)
  show ?thesis
    unfolding haversine_a_def Let_def 1 2 sin_minus by (simp add: mult.commute)
qed

text \<open>
  C6: the distance computed from A to B equals the distance computed from B to A.
\<close>

theorem haversine_symmetric: "haversine_distance A B = haversine_distance B A"
  by (simp add: haversine_distance_def haversine_a_sym [of A B])

lemma haversine_a_same: "haversine_a A A = 0"
  by (simp add: haversine_a_def)

lemma haversine_distance_same: "haversine_distance A A = 0"
  by (simp add: haversine_distance_def haversine_a_same Math_atan2_def)

subsection \<open>Identical endpoints\<close>

text \<open>
  C3 as stated (21 equal points) fails: the sine offset is added to the latitude
  whatever the endpoints are, so the middle of the path from Visakhapatnam to itself
  lies 0.2 degrees north of it.
\<close>

theorem same_point_route_counterexample:
  "route_points Visakhapatnam Visakhapatnam \<noteq> replicate 21 (lat Visakhapatnam, lng Visakhapatnam)"
proof
  assume "route_points Visakhapatnam Visakhapatnam = replicate 21 (lat Visakhapatnam, lng Visakhapatnam)"
  then have "route_points Visakhapatnam Visakhapatnam ! 10 = replicate 21 (lat Visakhapatnam, lng Visakhapatnam) ! 10"
    by simp
  then show False
    by (simp add: route_points_nth)
qed

text \<open>
  C3, amended: from A to A the generator returns 21 points, all with A's longitude,
  point \<open>i\<close> having latitude \<open>A.lat + sin (i / 20 pi) 0.2\<close>; the first and the last
  point are A, the middle one is 0.2 degrees north of A; the computed distance is 0.
\<close>

theorem same_point_route:
  "length (route_points A A) = 21
   \<and> (\<forall>i\<le>20. route_points A A ! i = (lat A + sin (real i / 20 * pi) * 0.2, lng A))
   \<and> route_points A A ! 0 = (lat A, lng A)
   \<and> route_points A A ! 10 = (lat A + 0.2, lng A)
   \<and> route_points A A ! 20 = (lat A, lng A)
   \<and> haversine_distance A A = 0"
  by (simp add: route_points_length route_points_nth haversine_distance_same)

theorem same_point_route_witness:
  "route_points Visakhapatnam Visakhapatnam ! 5 = (17.6868 + sin (pi / 4) * 0.2, 83.2185)
   \<and> route_points Visakhapatnam Visakhapatnam ! 10 = (17.8868, 83.2185)
   \<and> haversine_distance Visakhapatnam Visakhapatnam = 0"
  using same_point_route [of Visakhapatnam]
  by (simp add: Visakhapatnam_def)

section \<open>Properties of the sidebar operations\<close>

text \<open>
  C7: when the source or the destination is absent, the calculation does nothing: the
  start returns the unchanged state and schedules no continuation, so the state after
  the operation is the state before it (route and route summary included), and the
  button that triggers it is disabled.
\<close>

theorem missing_endpoint_noop:
  "source s = None \<or> destination s = None \<Longrightarrow>
   calculateRoute_start s = (s, None) \<and> calculateRoute s = s \<and> calculate_disabled s"
  by (auto simp: calculateRoute_start_def calculateRoute_def calculate_disabled_def
           split: option.splits)

theorem missing_endpoint_noop_witness:
  "calculateRoute (app_init\<lparr>source := Some Visakhapatnam\<rparr>) = app_init\<lparr>source := Some Visakhapatnam\<rparr>
   \<and> calculateRoute_start (app_init\<lparr>source := Some Visakhapatnam\<rparr>) =
       (app_init\<lparr>source := Some Visakhapatnam\<rparr>, None)
   \<and> calculate_disabled (app_init\<lparr>source := Some Visakhapatnam\<rparr>)"
  using missing_endpoint_noop [of "app_init\<lparr>source := Some Visakhapatnam\<rparr>"]
  by (simp add: app_init_def)

lemma calculateRoute_both:
  "source s = Some A \<Longrightarrow> destination s = Some B \<Longrightarrow>
   calculateRoute s =
     s\<lparr>routeInfo := Some \<lparr>distance = toFixed1 (haversine_distance A B) @ '' km'',
                             duration = duration_label (haversine_distance A B)\<rparr>,
       route := Some (route_points A B),
       isCalculating := False\<rparr>"
  by (simp add: calculateRoute_def calculateRoute_start_def calculateRoute_finish_def Let_def)

text \<open>
  C8: the swap exchanges source and destination and clears the route summary; applied
  twice it restores the selection; every other cell of the state keeps its value, the
  route in particular, so the polyline on the map stays: after a calculation from A to
  B followed by a swap, the selection is B to A and the line drawn is still the one
  from A to B.
\<close>

theorem swap_frame:
  "swapLocations s = s\<lparr>source := destination s, destination := source s, routeInfo := None\<rparr>
   \<and> source (swapLocations (swapLocations s)) = source s
   \<and> destination (swapLocations (swapLocations s)) = destination s
   \<and> routeInfo (swapLocations s) = None
   \<and> route (swapLocations s) = route s
   \<and> routeLayer (route (swapLocations s)) = routeLayer (route s)
   \<and> selectedLocation (swapLocations s) = selectedLocation s
   \<and> isCollapsed (swapLocations s) = isCollapsed s
   \<and> isCalculating (swapLocations s) = isCalculating s
   \<and> sourceSearch (swapLocations s) = sourceSearch s
   \<and> destinationSearch (swapLocations s) = destinationSearch s
   \<and> (source s = Some A \<and> destination s = Some B \<longrightarrow>
        source (swapLocations (calculateRoute s)) = Some B
        \<and> destination (swapLocations (calculateRoute s)) = Some A
        \<and> routeLayer (route (swapLocations (calculateRoute s))) = Some (route_points A B))"
  by (simp add: swapLocations_def Let_def calculateRoute_both routeLayer_def route_points_length)

theorem swap_frame_witness:
  "source (swapLocations (calculateRoute
      (app_init\<lparr>source := Some Visakhapatnam, destination := Some Vijayawada\<rparr>))) = Some Vijayawada
   \<and> destination (swapLocations (calculateRoute
      (app_init\<lparr>source := Some Visakhapatnam, destination := Some Vijayawada\<rparr>))) = Some Visakhapatnam
   \<and> routeLayer (route (swapLocations (calculateRoute
      (app_init\<lparr>source := Some Visakhapatnam, destination := Some Vijayawada\<rparr>)))) =
      Some (route_points Visakhapatnam Vijayawada)"
  using swap_frame [of "app_init\<lparr>source := Some Visakhapatnam, destination := Some Vijayawada\<rparr>"
                      Visakhapatnam Vijayawada]
  by (simp add: app_init_def)

section \<open>The worked example: Visakhapatnam to Vijayawada\<close>

subsection \<open>Enclosures for sine and \<open>pi\<close>\<close>

text \<open>
  The Maclaurin polynomials of the sine with their remainder bounds, at orders 5 and 9.
\<close>

lemma abs_diff_bounds:
  fixes s p e :: real
  assumes "\<bar>s - p\<bar> \<le> e"
  shows "p - e \<le> s" and "s \<le> p + e"
  using assms by linarith+

lemma sin_sum5: "(\<Sum>m<5. sin_coeff m * x ^ m) = x - x ^ 3 / 6" for x :: real
proof -
  have "{..<5::nat} = {0, 1, 2, 3, 4}"
    by auto
  then show ?thesis
    by (simp add: sin_coeff_def fact_numeral)
qed

lemma sin_sum9:
  "(\<Sum>m<9. sin_coeff m * x ^ m) = x - x ^ 3 / 6 + x ^ 5 / 120 - x ^ 7 / 5040" for x :: real
proof -
  have "{..<9::nat} = {0, 1, 2, 3, 4, 5, 6, 7, 8}"
    by auto
  then show ?thesis
    by (simp add: sin_coeff_def fact_numeral)
qed

lemma sin_taylor5:
  fixes x :: real
  shows "\<bar>sin x - (x - x ^ 3 / 6)\<bar> \<le> \<bar>x\<bar> ^ 5 / 120"
proof -
  have "inverse (fact 5 :: real) = 1 / 120"
    by (simp add: fact_numeral)
  then have "inverse (fact 5) * \<bar>x\<bar> ^ 5 = \<bar>x\<bar> ^ 5 / 120"
    by simp
  then show ?thesis
    using Maclaurin_sin_bound [of x 5] by (simp only: sin_sum5)
qed

lemma sin_taylor9:
  fixes x :: real
  shows "\<bar>sin x - (x - x ^ 3 / 6 + x ^ 5 / 120 - x ^ 7 / 5040)\<bar> \<le> \<bar>x\<bar> ^ 9 / 362880"
proof -
  have "inverse (fact 9 :: real) = 1 / 362880"
    by (simp add: fact_numeral)
  then have "inverse (fact 9) * \<bar>x\<bar> ^ 9 = \<bar>x\<bar> ^ 9 / 362880"
    by simp
  then show ?thesis
    using Maclaurin_sin_bound [of x 9] by (simp only: sin_sum9)
qed


lemma pi_lower: "3.14159 < pi"
proof -
  define x :: real where "x = 3.14159 / 6"
  have "sin x \<le> (x - x ^ 3 / 6 + x ^ 5 / 120 - x ^ 7 / 5040) + \<bar>x\<bar> ^ 9 / 362880"
    by (rule abs_diff_bounds(2) [OF sin_taylor9])
  also have "\<dots> < 1 / 2"
    unfolding x_def by (simp add: power_divide)
  finally have "sin x < sin (pi / 6)"
    by (simp add: sin_30)
  moreover have "- (pi / 2) \<le> x" "x \<le> pi / 2" "- (pi / 2) \<le> pi / 6" "pi / 6 \<le> pi / 2"
    using pi_ge_two by (simp_all add: x_def)
  ultimately have "x < pi / 6"
    using sin_mono_less_eq by blast
  then show ?thesis by (simp add: x_def)
qed

lemma pi_upper: "pi < 3.1416"
proof -
  define x :: real where "x = 3.1416 / 6"
  have "1 / 2 < (x - x ^ 3 / 6 + x ^ 5 / 120 - x ^ 7 / 5040) - \<bar>x\<bar> ^ 9 / 362880"
    unfolding x_def by (simp add: power_divide)
  also have "\<dots> \<le> sin x"
    by (rule abs_diff_bounds(1) [OF sin_taylor9])
  finally have "sin (pi / 6) < sin x"
    by (simp add: sin_30)
  moreover have "- (pi / 2) \<le> x" "x \<le> pi / 2" "- (pi / 2) \<le> pi / 6" "pi / 6 \<le> pi / 2"
    using pi_ge_two by (simp_all add: x_def)
  ultimately have "pi / 6 < x"
    using sin_mono_less_eq by blast
  then show ?thesis by (simp add: x_def)
qed

text \<open>On \<open>[0, 1]\<close> the sine is increasing, so an enclosure of the argument gives one of the sine.\<close>

lemma sin_enclosure:
  fixes x lo hi :: real
  assumes "0 \<le> lo" "lo \<le> x" "x \<le> hi" "hi \<le> 1"
  shows "lo - lo ^ 3 / 6 - lo ^ 5 / 120 \<le> sin x"
    and "sin x \<le> hi - hi ^ 3 / 6 + hi ^ 5 / 120"
proof -
  have r: "- (pi / 2) \<le> lo" "lo \<le> pi / 2" "- (pi / 2) \<le> x" "x \<le> pi / 2"
          "- (pi / 2) \<le> hi" "hi \<le> pi / 2"
    using assms pi_ge_two by linarith+
  have "lo - lo ^ 3 / 6 - \<bar>lo\<bar> ^ 5 / 120 \<le> sin lo"
    by (rule abs_diff_bounds(1) [OF sin_taylor5])
  moreover have "sin lo \<le> sin x"
    using r assms by (simp add: sin_mono_le_eq)
  ultimately show "lo - lo ^ 3 / 6 - lo ^ 5 / 120 \<le> sin x"
    using assms by simp
  have "sin hi \<le> hi - hi ^ 3 / 6 + \<bar>hi\<bar> ^ 5 / 120"
    by (rule abs_diff_bounds(2) [OF sin_taylor5])
  moreover have "sin x \<le> sin hi"
    using r assms by (simp add: sin_mono_le_eq)
  moreover have "0 \<le> hi"
    using assms by linarith
  ultimately show "sin x \<le> hi - hi ^ 3 / 6 + hi ^ 5 / 120"
    by simp
qed

text \<open>
  With both square roots positive, \<^verbatim>\<open>Math.atan2\<close> returns the angle whose sine is
  \<open>sqrt a\<close>; comparing sines encloses it.
\<close>

lemma haversine_angle_enclosure:
  fixes a l u :: real
  assumes a: "0 < a" "a < 1"
    and l: "0 \<le> l" "l ^ 2 < a"
    and u: "0 \<le> u" "u \<le> 1" "a < (u - u ^ 3 / 6 - u ^ 5 / 120) ^ 2" "0 \<le> u - u ^ 3 / 6 - u ^ 5 / 120"
  shows "l < Math_atan2 (sqrt a) (sqrt (1 - a))" and "Math_atan2 (sqrt a) (sqrt (1 - a)) < u"
proof -
  define z where "z = sqrt a / sqrt (1 - a)"
  define th where "th = arctan z"
  have p: "0 < sqrt (1 - a)" "0 < sqrt a"
    using a by simp_all
  then have at: "Math_atan2 (sqrt a) (sqrt (1 - a)) = th"
    by (simp add: Math_atan2_def th_def z_def)
  have "z\<^sup>2 = a / (1 - a)"
    using a by (simp add: z_def power_divide)
  then have "1 + z\<^sup>2 = 1 / (1 - a)"
    using a by (simp add: field_simps)
  then have "sqrt (1 + z\<^sup>2) = 1 / sqrt (1 - a)"
    by (simp add: real_sqrt_divide)
  then have sth: "sin th = sqrt a"
    using p by (simp add: th_def sin_arctan z_def)
  have "0 < z"
    using p by (simp add: z_def)
  then have "0 < th"
    unfolding th_def using arctan_less_iff [of 0 z] by simp
  have thr: "- (pi / 2) \<le> th" "th \<le> pi / 2"
    using arctan_lbound [of z] arctan_ubound [of z] by (simp_all add: th_def)
  have "l < 1"
  proof (rule ccontr)
    assume "\<not> l < 1"
    then have "1 \<le> l ^ 2"
      by simp
    then show False
      using l a by linarith
  qed
  then have lr: "- (pi / 2) \<le> l" "l \<le> pi / 2"
    using l pi_ge_two by linarith+
  have ur: "- (pi / 2) \<le> u" "u \<le> pi / 2"
    using u pi_ge_two by linarith+
  have "sin l \<le> l"
    using l by (simp add: sin_x_le_x)
  moreover have "l < sqrt a"
    using l by (simp add: real_less_rsqrt)
  ultimately have "sin l < sin th"
    using sth by linarith
  then have "l < th"
    using sin_mono_less_eq [OF lr thr] by simp
  then show "l < Math_atan2 (sqrt a) (sqrt (1 - a))"
    by (simp add: at)
  have "sqrt a < u - u ^ 3 / 6 - u ^ 5 / 120"
    using u by (simp add: real_less_lsqrt)
  moreover have "u - u ^ 3 / 6 - u ^ 5 / 120 \<le> sin u"
    by (rule sin_enclosure(1) [of u u u]) (use u in simp_all)
  ultimately have "sin th < sin u"
    using sth by linarith
  then have "th < u"
    using sin_mono_less_eq [OF thr ur] by simp
  then show "Math_atan2 (sqrt a) (sqrt (1 - a)) < u"
    by (simp add: at)
qed

subsection \<open>The terms of the formula at the two towns\<close>

lemma example_x1:
  "0.010302486 \<le> sin (1.1806 * pi / 360)" "sin (1.1806 * pi / 360) \<le> 0.010302521"
proof -
  define x :: real where "x = 1.1806 * pi / 360"
  define lo :: real where "lo = 0.010302669"
  define hi :: real where "hi = 0.010302703"
  have b: "0 \<le> lo" "lo \<le> x" "x \<le> hi" "hi \<le> 1"
    using pi_lower pi_upper by (simp_all add: x_def lo_def hi_def)
  have "0.010302486 \<le> lo - lo ^ 3 / 6 - lo ^ 5 / 120"
    unfolding lo_def by (simp add: power_divide)
  also have "\<dots> \<le> sin x"
    by (rule sin_enclosure(1) [OF b])
  finally show "0.010302486 \<le> sin (1.1806 * pi / 360)"
    by (simp add: x_def)
  have "sin x \<le> hi - hi ^ 3 / 6 + hi ^ 5 / 120"
    by (rule sin_enclosure(2) [OF b])
  also have "\<dots> \<le> 0.010302521"
    unfolding hi_def by (simp add: power_divide)
  finally show "sin (1.1806 * pi / 360) \<le> 0.010302521"
    by (simp add: x_def)
qed

lemma example_x2:
  "0.022429943 \<le> sin (2.5705 * pi / 360)" "sin (2.5705 * pi / 360) \<le> 0.022430016"
proof -
  define x :: real where "x = 2.5705 * pi / 360"
  define lo :: real where "lo = 0.022431825"
  define hi :: real where "hi = 0.022431897"
  have b: "0 \<le> lo" "lo \<le> x" "x \<le> hi" "hi \<le> 1"
    using pi_lower pi_upper by (simp_all add: x_def lo_def hi_def)
  have "0.022429943 \<le> lo - lo ^ 3 / 6 - lo ^ 5 / 120"
    unfolding lo_def by (simp add: power_divide)
  also have "\<dots> \<le> sin x"
    by (rule sin_enclosure(1) [OF b])
  finally show "0.022429943 \<le> sin (2.5705 * pi / 360)"
    by (simp add: x_def)
  have "sin x \<le> hi - hi ^ 3 / 6 + hi ^ 5 / 120"
    by (rule sin_enclosure(2) [OF b])
  also have "\<dots> \<le> 0.022430016"
    unfolding hi_def by (simp add: power_divide)
  finally show "sin (2.5705 * pi / 360) \<le> 0.022430016"
    by (simp add: x_def)
qed

lemma example_h1:
  "0.153732759 \<le> sin (17.6868 * pi / 360)" "sin (17.6868 * pi / 360) \<le> 0.153734706"
proof -
  define x :: real where "x = 17.6868 * pi / 360"
  define lo :: real where "lo = 0.154346316"
  define hi :: real where "hi = 0.154346808"
  have b: "0 \<le> lo" "lo \<le> x" "x \<le> hi" "hi \<le> 1"
    using pi_lower pi_upper by (simp_all add: x_def lo_def hi_def)
  have "0.153732759 \<le> lo - lo ^ 3 / 6 - lo ^ 5 / 120"
    unfolding lo_def by (simp add: power_divide)
  also have "\<dots> \<le> sin x"
    by (rule sin_enclosure(1) [OF b])
  finally show "0.153732759 \<le> sin (17.6868 * pi / 360)"
    by (simp add: x_def)
  have "sin x \<le> hi - hi ^ 3 / 6 + hi ^ 5 / 120"
    by (rule sin_enclosure(2) [OF b])
  also have "\<dots> \<le> 0.153734706"
    unfolding hi_def by (simp add: power_divide)
  finally show "sin (17.6868 * pi / 360) \<le> 0.153734706"
    by (simp add: x_def)
qed

lemma example_h2:
  "0.143545012 \<le> sin (16.5062 * pi / 360)" "sin (16.5062 * pi / 360) \<le> 0.143546502"
proof -
  define x :: real where "x = 16.5062 * pi / 360"
  define lo :: real where "lo = 0.144043646"
  define hi :: real where "hi = 0.144044106"
  have b: "0 \<le> lo" "lo \<le> x" "x \<le> hi" "hi \<le> 1"
    using pi_lower pi_upper by (simp_all add: x_def lo_def hi_def)
  have "0.143545012 \<le> lo - lo ^ 3 / 6 - lo ^ 5 / 120"
    unfolding lo_def by (simp add: power_divide)
  also have "\<dots> \<le> sin x"
    by (rule sin_enclosure(1) [OF b])
  finally show "0.143545012 \<le> sin (16.5062 * pi / 360)"
    by (simp add: x_def)
  have "sin x \<le> hi - hi ^ 3 / 6 + hi ^ 5 / 120"
    by (rule sin_enclosure(2) [OF b])
  also have "\<dots> \<le> 0.143546502"
    unfolding hi_def by (simp add: power_divide)
  finally show "sin (16.5062 * pi / 360) \<le> 0.143546502"
    by (simp add: x_def)
qed

lemma example_c1:
  "0.95273128 \<le> cos (17.6868 * pi / 180)" "cos (17.6868 * pi / 180) \<le> 0.952732478"
proof -
  define t :: real where "t = sin (17.6868 * pi / 360)"
  have t: "0.153732759 \<le> t" "t \<le> 0.153734706"
    unfolding t_def by (rule example_h1)+
  have "17.6868 * pi / 180 = 2 * (17.6868 * pi / 360)"
    by simp
  then have "cos (17.6868 * pi / 180) = cos (2 * (17.6868 * pi / 360))"
    by (rule arg_cong)
  then have c: "cos (17.6868 * pi / 180) = 1 - 2 * t\<^sup>2"
    by (simp only: cos_double_sin t_def)
  have "(0.153732759)\<^sup>2 \<le> t\<^sup>2"
    using t by (intro power_mono) simp_all
  then show "cos (17.6868 * pi / 180) \<le> 0.952732478"
    unfolding c by (simp add: power_divide)
  have "0 \<le> t"
    using t by linarith
  then have "t\<^sup>2 \<le> (0.153734706)\<^sup>2"
    using t by (intro power_mono) simp_all
  then show "0.95273128 \<le> cos (17.6868 * pi / 180)"
    unfolding c by (simp add: power_divide)
qed

lemma example_c2:
  "0.958788803 \<le> cos (16.5062 * pi / 180)" "cos (16.5062 * pi / 180) \<le> 0.95878966"
proof -
  define t :: real where "t = sin (16.5062 * pi / 360)"
  have t: "0.143545012 \<le> t" "t \<le> 0.143546502"
    unfolding t_def by (rule example_h2)+
  have "16.5062 * pi / 180 = 2 * (16.5062 * pi / 360)"
    by simp
  then have "cos (16.5062 * pi / 180) = cos (2 * (16.5062 * pi / 360))"
    by (rule arg_cong)
  then have c: "cos (16.5062 * pi / 180) = 1 - 2 * t\<^sup>2"
    by (simp only: cos_double_sin t_def)
  have "(0.143545012)\<^sup>2 \<le> t\<^sup>2"
    using t by (intro power_mono) simp_all
  then show "cos (16.5062 * pi / 180) \<le> 0.95878966"
    unfolding c by (simp add: power_divide)
  have "0 \<le> t"
    using t by linarith
  then have "t\<^sup>2 \<le> (0.143546502)\<^sup>2"
    using t by (intro power_mono) simp_all
  then show "0.958788803 \<le> cos (16.5062 * pi / 180)"
    unfolding c by (simp add: power_divide)
qed

lemma example_a_eq:
  "haversine_a Visakhapatnam Vijayawada =
     (sin (1.1806 * pi / 360))\<^sup>2 +
     cos (17.6868 * pi / 180) * cos (16.5062 * pi / 180) * (sin (2.5705 * pi / 360))\<^sup>2"
proof -
  have 1: "(16.5062 - 17.6868) * pi / 180 / 2 = - (1.1806 * pi / 360)"
    by simp
  have 2: "(80.6480 - 83.2185) * pi / 180 / 2 = - (2.5705 * pi / 360)"
    by simp
  have "haversine_a Visakhapatnam Vijayawada =
          sin ((16.5062 - 17.6868) * pi / 180 / 2) * sin ((16.5062 - 17.6868) * pi / 180 / 2) +
          cos (17.6868 * pi / 180) * cos (16.5062 * pi / 180) *
          sin ((80.6480 - 83.2185) * pi / 180 / 2) * sin ((80.6480 - 83.2185) * pi / 180 / 2)"
    by (simp only: haversine_a_def Let_def Visakhapatnam_def Vijayawada_def location.simps)
  also have "\<dots> = (sin (1.1806 * pi / 360))\<^sup>2 +
     cos (17.6868 * pi / 180) * cos (16.5062 * pi / 180) * (sin (2.5705 * pi / 360))\<^sup>2"
    unfolding 1 2 sin_minus by (simp add: power2_eq_square)
  finally show ?thesis .
qed

lemma example_a_bounds:
  "0.000565708 \<le> haversine_a Visakhapatnam Vijayawada" "haversine_a Visakhapatnam Vijayawada \<le> 0.000565715"
proof -
  define s1 :: real where "s1 = sin (1.1806 * pi / 360)"
  define s2 :: real where "s2 = sin (2.5705 * pi / 360)"
  define c1 :: real where "c1 = cos (17.6868 * pi / 180)"
  define c2 :: real where "c2 = cos (16.5062 * pi / 180)"
  have s1: "0.010302486 \<le> s1" "s1 \<le> 0.010302521"
    unfolding s1_def by (rule example_x1)+
  have s2: "0.022429943 \<le> s2" "s2 \<le> 0.022430016"
    unfolding s2_def by (rule example_x2)+
  have c1: "0.95273128 \<le> c1" "c1 \<le> 0.952732478"
    unfolding c1_def by (rule example_c1)+
  have c2: "0.958788803 \<le> c2" "c2 \<le> 0.95878966"
    unfolding c2_def by (rule example_c2)+
  have a: "haversine_a Visakhapatnam Vijayawada = s1\<^sup>2 + c1 * c2 * s2\<^sup>2"
    by (simp only: example_a_eq s1_def s2_def c1_def c2_def)
  have "(0.010302486)\<^sup>2 \<le> s1\<^sup>2"
    using s1 by (intro power_mono) simp_all
  then have q1l: "0.000106141 \<le> s1\<^sup>2"
    by (simp add: power_divide)
  have "0 \<le> s1"
    using s1 by linarith
  then have "s1\<^sup>2 \<le> (0.010302521)\<^sup>2"
    using s1 by (intro power_mono) simp_all
  then have q1h: "s1\<^sup>2 \<le> 0.000106142"
    by (simp add: power_divide)
  have "(0.022429943)\<^sup>2 \<le> s2\<^sup>2"
    using s2 by (intro power_mono) simp_all
  then have q2l: "0.000503102 \<le> s2\<^sup>2"
    by (simp add: power_divide)
  have "0 \<le> s2"
    using s2 by linarith
  then have "s2\<^sup>2 \<le> (0.022430016)\<^sup>2"
    using s2 by (intro power_mono) simp_all
  then have q2h: "s2\<^sup>2 \<le> 0.000503106"
    by (simp add: power_divide)
  have "0.95273128 * 0.958788803 \<le> c1 * c2"
    using c1 c2 by (intro mult_mono) simp_all
  then have ccl: "0.913468083 \<le> c1 * c2"
    by simp
  have "0 \<le> c1" "0 \<le> c2"
    using c1 c2 by linarith+
  then have "c1 * c2 \<le> 0.952732478 * 0.95878966"
    using c1 c2 by (intro mult_mono) simp_all
  then have cch: "c1 * c2 \<le> 0.913470049"
    by simp
  have "0.913468083 * 0.000503102 \<le> c1 * c2 * s2\<^sup>2"
    using ccl q2l by (intro mult_mono) simp_all
  then have ml: "0.000459567 \<le> c1 * c2 * s2\<^sup>2"
    by simp
  have "0 \<le> c1 * c2"
    by (rule order_trans [OF _ ccl]) simp
  then have "c1 * c2 * s2\<^sup>2 \<le> 0.913470049 * 0.000503106"
    using cch q2h by (intro mult_mono) simp_all
  then have mh: "c1 * c2 * s2\<^sup>2 \<le> 0.000459573"
    by simp
  show "0.000565708 \<le> haversine_a Visakhapatnam Vijayawada"
    unfolding a using q1l ml by linarith
  show "haversine_a Visakhapatnam Vijayawada \<le> 0.000565715"
    unfolding a using q1h mh by linarith
qed

lemma example_distance:
  "303.05 < haversine_distance Visakhapatnam Vijayawada"
  "haversine_distance Visakhapatnam Vijayawada < 303.15"
proof -
  define a where "a = haversine_a Visakhapatnam Vijayawada"
  define l :: real where "l = 303.05 / 12742"
  define u :: real where "u = 303.15 / 12742"
  have ab: "0.000565708 \<le> a" "a \<le> 0.000565715"
    unfolding a_def by (rule example_a_bounds)+
  have a: "0 < a" "a < 1"
    using ab by simp_all
  have "l ^ 2 < 0.000565708"
    unfolding l_def by (simp add: power_divide)
  then have l: "0 \<le> l" "l ^ 2 < a"
    using ab by (simp_all add: l_def)
  have "0.000565715 < (u - u ^ 3 / 6 - u ^ 5 / 120) ^ 2"
    unfolding u_def by (simp add: power_divide)
  then have u: "0 \<le> u" "u \<le> 1" "a < (u - u ^ 3 / 6 - u ^ 5 / 120) ^ 2"
    using ab by (simp_all add: u_def)
  have u': "0 \<le> u - u ^ 3 / 6 - u ^ 5 / 120"
    unfolding u_def by (simp add: power_divide)
  have d: "haversine_distance Visakhapatnam Vijayawada =
             6371 * (2 * Math_atan2 (sqrt a) (sqrt (1 - a)))"
    by (simp add: haversine_distance_def a_def Let_def)
  have "l < Math_atan2 (sqrt a) (sqrt (1 - a))"
    by (rule haversine_angle_enclosure(1) [OF a l u u'])
  then show "303.05 < haversine_distance Visakhapatnam Vijayawada"
    unfolding d l_def by simp
  have "Math_atan2 (sqrt a) (sqrt (1 - a)) < u"
    by (rule haversine_angle_enclosure(2) [OF a l u u'])
  then show "haversine_distance Visakhapatnam Vijayawada < 303.15"
    unfolding d u_def by simp
qed

subsection \<open>The labels\<close>

lemma show_nat_303_1: "show_nat 303 = ''303''" "show_nat (Suc 0) = ''1''"
  by code_simp+

lemma label_5h_3m:
  fixes km :: real
  assumes "303.05 < km" "km < 303.15"
  shows "duration_label km = ''5h 3m''"
proof -
  have H: "label_hours km = 5"
    using assms by (intro label_hours_eq) simp_all
  have M: "label_minutes km = 3"
    using assms by (intro label_minutes_eq) (simp_all add: H)
  show ?thesis
    by (simp add: duration_label_eq H M show_int_digits)
qed

lemma toFixed1_303_1:
  fixes x :: real
  assumes "303.05 \<le> x" "x < 303.15"
  shows "toFixed1 x = ''303.1''"
proof -
  have "\<lfloor>\<bar>x\<bar> * 10 + 1 / 2\<rfloor> = 3031"
    using assms by (intro floor_unique) auto
  then have n: "nat \<lfloor>\<bar>x\<bar> * 10 + 1 / 2\<rfloor> = 3031"
    by simp
  have "\<not> x < 0"
    using assms by linarith
  then show ?thesis
    unfolding toFixed1_def Let_def n by (simp add: show_nat_303_1)
qed

text \<open>
  C4 as stated fails: for source (17.6868, 83.2185) and destination (16.5062, 80.6480)
  the computed distance does not round to 291 km and the duration label is not "4h 51m".
\<close>

theorem example_distance_counterexample:
  "\<not> (290.5 \<le> haversine_distance Visakhapatnam Vijayawada
        \<and> haversine_distance Visakhapatnam Vijayawada < 291.5)
   \<and> duration_label (haversine_distance Visakhapatnam Vijayawada) \<noteq> ''4h 51m''"
proof -
  have d: "303.05 < haversine_distance Visakhapatnam Vijayawada"
          "haversine_distance Visakhapatnam Vijayawada < 303.15"
    by (rule example_distance)+
  then have "duration_label (haversine_distance Visakhapatnam Vijayawada) = ''5h 3m''"
    by (intro label_5h_3m) simp_all
  then show ?thesis
    using d by simp
qed

text \<open>
  C4, amended: for these two towns the Haversine computation with radius 6371 km yields
  a distance between 303.05 km and 303.15 km, the duration label is "5h 3m", and the
  route summary set by the calculation is "303.1 km" with "5h 3m". (Both texts are the
  same for every distance strictly between 303.05 and 303.15.)
\<close>

theorem example_distance_label:
  "303.05 < haversine_distance Visakhapatnam Vijayawada
   \<and> haversine_distance Visakhapatnam Vijayawada < 303.15
   \<and> duration_label (haversine_distance Visakhapatnam Vijayawada) = ''5h 3m''
   \<and> routeInfo (calculateRoute (app_init\<lparr>source := Some Visakhapatnam, destination := Some Vijayawada\<rparr>))
       = Some \<lparr>distance = ''303.1 km'', duration = ''5h 3m''\<rparr>"
proof -
  have d: "303.05 < haversine_distance Visakhapatnam Vijayawada"
          "haversine_distance Visakhapatnam Vijayawada < 303.15"
    by (rule example_distance)+
  then have l: "duration_label (haversine_distance Visakhapatnam Vijayawada) = ''5h 3m''"
    by (intro label_5h_3m) simp_all
  have t: "toFixed1 (haversine_distance Visakhapatnam Vijayawada) = ''303.1''"
    using d by (intro toFixed1_303_1) simp_all
  have "routeInfo (calculateRoute (app_init\<lparr>source := Some Visakhapatnam, destination := Some Vijayawada\<rparr>))
       = Some \<lparr>distance = ''303.1 km'', duration = ''5h 3m''\<rparr>"
    by (simp add: calculateRoute_def calculateRoute_start_def calculateRoute_finish_def Let_def
                  app_init_def l t)
  then show ?thesis
    using d l by simp
qed

end
